theory Spec2Isabelle
  imports Main
begin

section \<open>Lesson builder: schema and server actions\<close>

text \<open>
  The repository has two parts: the table definitions of \<^verbatim>\<open>src/db/tables.ts\<close> and the
  server actions (one \<^verbatim>\<open>defineAction\<close> per use case) of the action module.  A handler
  is embedded as a function from its parsed input, the request context, the clock reading
  of the call and the store to a result and the store after the call.  A thrown
  \<^verbatim>\<open>ActionError\<close> is the left summand of the result.
\<close>

subsection \<open>Column declarations of \<^verbatim>\<open>tables.ts\<close>\<close>

datatype column_type = ColNumber | ColText | ColDate | ColJson

datatype column_default = NoDefault | DefaultNumber int | DefaultText string | NOW

record column =
  col_type :: column_type
  col_primaryKey :: bool
  col_autoIncrement :: bool
  col_optional :: bool
  col_references :: "(string \<times> string) option"
  col_enum :: "string list"
  col_default :: column_default

definition column_number :: column where
  "column_number = \<lparr>col_type = ColNumber, col_primaryKey = False, col_autoIncrement = False,
     col_optional = False, col_references = None, col_enum = [], col_default = NoDefault\<rparr>"

definition column_text :: column where
  "column_text = column_number\<lparr>col_type := ColText\<rparr>"

definition column_date :: column where
  "column_date = column_number\<lparr>col_type := ColDate\<rparr>"

definition column_json :: column where
  "column_json = column_number\<lparr>col_type := ColJson\<rparr>"

definition LessonPlans_columns :: "(string \<times> column) list" where
  "LessonPlans_columns =
    [(''id'', column_number\<lparr>col_primaryKey := True, col_autoIncrement := True\<rparr>),
     (''ownerId'', column_text),
     (''title'', column_text),
     (''subject'', column_text\<lparr>col_optional := True\<rparr>),
     (''gradeLevel'', column_text\<lparr>col_optional := True\<rparr>),
     (''overview'', column_text\<lparr>col_optional := True\<rparr>),
     (''durationMinutes'', column_number\<lparr>col_optional := True\<rparr>),
     (''tags'', column_text\<lparr>col_optional := True\<rparr>),
     (''status'', column_text\<lparr>col_enum := [''draft'', ''published'', ''archived''],
        col_default := DefaultText ''draft''\<rparr>),
     (''createdAt'', column_date\<lparr>col_default := NOW\<rparr>),
     (''updatedAt'', column_date\<lparr>col_default := NOW\<rparr>)]"

definition LessonObjectives_columns :: "(string \<times> column) list" where
  "LessonObjectives_columns =
    [(''id'', column_number\<lparr>col_primaryKey := True, col_autoIncrement := True\<rparr>),
     (''planId'', column_number\<lparr>col_references := Some (''LessonPlans'', ''id'')\<rparr>),
     (''text'', column_text),
     (''order'', column_number\<lparr>col_default := DefaultNumber 1\<rparr>),
     (''createdAt'', column_date\<lparr>col_default := NOW\<rparr>)]"

definition LessonSteps_columns :: "(string \<times> column) list" where
  "LessonSteps_columns =
    [(''id'', column_number\<lparr>col_primaryKey := True, col_autoIncrement := True\<rparr>),
     (''planId'', column_number\<lparr>col_references := Some (''LessonPlans'', ''id'')\<rparr>),
     (''title'', column_text\<lparr>col_optional := True\<rparr>),
     (''description'', column_text),
     (''durationMinutes'', column_number\<lparr>col_optional := True\<rparr>),
     (''order'', column_number\<lparr>col_default := DefaultNumber 1\<rparr>),
     (''createdAt'', column_date\<lparr>col_default := NOW\<rparr>)]"

definition LessonMaterials_columns :: "(string \<times> column) list" where
  "LessonMaterials_columns =
    [(''id'', column_number\<lparr>col_primaryKey := True, col_autoIncrement := True\<rparr>),
     (''planId'', column_number\<lparr>col_references := Some (''LessonPlans'', ''id'')\<rparr>),
     (''name'', column_text),
     (''type'', column_text\<lparr>col_optional := True\<rparr>),
     (''url'', column_text\<lparr>col_optional := True\<rparr>),
     (''createdAt'', column_date\<lparr>col_default := NOW\<rparr>)]"

definition LessonJobs_columns :: "(string \<times> column) list" where
  "LessonJobs_columns =
    [(''id'', column_number\<lparr>col_primaryKey := True, col_autoIncrement := True\<rparr>),
     (''planId'', column_number\<lparr>col_references := Some (''LessonPlans'', ''id''),
        col_optional := True\<rparr>),
     (''userId'', column_text\<lparr>col_optional := True\<rparr>),
     (''jobType'', column_text\<lparr>col_enum := [''outline'', ''objectives'', ''steps'',
        ''materials'', ''full''], col_default := DefaultText ''full''\<rparr>),
     (''input'', column_json\<lparr>col_optional := True\<rparr>),
     (''output'', column_json\<lparr>col_optional := True\<rparr>),
     (''status'', column_text\<lparr>col_enum := [''pending'', ''completed'', ''failed''],
        col_default := DefaultText ''completed''\<rparr>),
     (''createdAt'', column_date\<lparr>col_default := NOW\<rparr>)]"

subsection \<open>Rows\<close>

text \<open>
  A row is a record with one field per column; an optional column holds an option, a date
  is a number of clock ticks, a JSON column holds an uninterpreted JSON value.
\<close>

datatype plan_status = Draft | Published | Archived

datatype job_type = Outline | Objectives | Steps | Materials | Full

datatype job_status = Pending | Completed | Failed

datatype json = JNull | JBool bool | JNumber int | JString string
  | JArray "json list" | JObject "(string \<times> json) list"

record LessonPlan =
  plan_id :: int
  plan_ownerId :: string
  plan_title :: string
  plan_subject :: "string option"
  plan_gradeLevel :: "string option"
  plan_overview :: "string option"
  plan_durationMinutes :: "int option"
  plan_tags :: "string option"
  plan_status :: plan_status
  plan_createdAt :: nat
  plan_updatedAt :: nat

record LessonObjective =
  objective_id :: int
  objective_planId :: int
  objective_text :: string
  objective_order :: int
  objective_createdAt :: nat

record LessonStep =
  step_id :: int
  step_planId :: int
  step_title :: "string option"
  step_description :: string
  step_durationMinutes :: "int option"
  step_order :: int
  step_createdAt :: nat

record LessonMaterial =
  material_id :: int
  material_planId :: int
  material_name :: string
  material_type :: "string option"
  material_url :: "string option"
  material_createdAt :: nat

record LessonJob =
  job_id :: int
  job_planId :: "int option"
  job_userId :: "string option"
  job_jobType :: job_type
  job_input :: "json option"
  job_output :: "json option"
  job_status :: job_status
  job_createdAt :: nat

subsection \<open>The store\<close>

text \<open>
  A table is the list of its rows in insertion order together with the largest key the
  table has handed out so far (the sequence of an auto-increment primary key).  The store
  is the five tables.  Foreign keys are columns like any other: the store does not check
  them.
\<close>

record 'r table =
  rows :: "'r list"
  seq :: int

record Db =
  LessonPlans :: "LessonPlan table"
  LessonObjectives :: "LessonObjective table"
  LessonSteps :: "LessonStep table"
  LessonMaterials :: "LessonMaterial table"
  LessonJobs :: "LessonJob table"

definition empty_table :: "'r table" where
  "empty_table = \<lparr>rows = [], seq = 0\<rparr>"

definition empty_db :: Db where
  "empty_db = \<lparr>LessonPlans = empty_table, LessonObjectives = empty_table,
     LessonSteps = empty_table, LessonMaterials = empty_table, LessonJobs = empty_table\<rparr>"

text \<open>\<^verbatim>\<open>const [x] = rows\<close>: the first row, or undefined.\<close>

definition first :: "'r list \<Rightarrow> 'r option" where
  "first rs = (case rs of [] \<Rightarrow> None | r # _ \<Rightarrow> Some r)"

text \<open>\<^verbatim>\<open>select().from(t).where(P)\<close> and \<^verbatim>\<open>.limit(n)\<close>.\<close>

definition select_where :: "('r \<Rightarrow> bool) \<Rightarrow> 'r table \<Rightarrow> 'r list" where
  "select_where P t = filter P (rows t)"

definition limit :: "nat \<Rightarrow> 'r list \<Rightarrow> 'r list" where
  "limit n rs = take n rs"

text \<open>The key of the next inserted row: one more than every key present or handed out.\<close>

definition next_id :: "('r \<Rightarrow> int) \<Rightarrow> 'r table \<Rightarrow> int" where
  "next_id key t = 1 + fold max (map key (rows t)) (seq t)"

text \<open>
  \<^verbatim>\<open>insert(t).values(v).returning()\<close>: the row is built from the values and the fresh
  key, appended, and returned.
\<close>

definition insert_returning ::
  "('r \<Rightarrow> int) \<Rightarrow> (int \<Rightarrow> 'r) \<Rightarrow> 'r table \<Rightarrow> 'r list \<times> 'r table" where
  "insert_returning key mk t =
     (let i = next_id key t; r = mk i in ([r], \<lparr>rows = rows t @ [r], seq = i\<rparr>))"

text \<open>\<^verbatim>\<open>update(t).set(f).where(P).returning()\<close>: every matching row is changed and returned.\<close>

definition update_returning ::
  "('r \<Rightarrow> 'r) \<Rightarrow> ('r \<Rightarrow> bool) \<Rightarrow> 'r table \<Rightarrow> 'r list \<times> 'r table" where
  "update_returning f P t =
     (map f (filter P (rows t)), t\<lparr>rows := map (\<lambda>r. if P r then f r else r) (rows t)\<rparr>)"

text \<open>\<^verbatim>\<open>delete(t).where(P).returning()\<close>: every matching row is removed and returned.\<close>

definition delete_returning :: "('r \<Rightarrow> bool) \<Rightarrow> 'r table \<Rightarrow> 'r list \<times> 'r table" where
  "delete_returning P t = (filter P (rows t), t\<lparr>rows := filter (\<lambda>r. \<not> P r) (rows t)\<rparr>)"

subsection \<open>Request context and errors\<close>

record User =
  user_id :: string

record Locals =
  locals_user :: "User option"

record ActionAPIContext =
  context_locals :: "Locals option"

datatype ActionErrorCode = UNAUTHORIZED | NOT_FOUND

datatype ActionError = ActionError ActionErrorCode string

fun error_code :: "ActionError \<Rightarrow> ActionErrorCode" where
  "error_code (ActionError c m) = c"

definition requireUser :: "ActionAPIContext \<Rightarrow> ActionError + User" where
  "requireUser context =
     (case (case context_locals context of None \<Rightarrow> None | Some locals \<Rightarrow> locals_user locals) of
        None \<Rightarrow> Inl (ActionError UNAUTHORIZED ''You must be signed in to perform this action.'')
      | Some user \<Rightarrow> Inr user)"

definition plan_not_found :: ActionError where
  "plan_not_found = ActionError NOT_FOUND ''Lesson plan not found.''"

text \<open>
  The query every handler that names a plan starts with: the plan with that key owned by
  the caller, at most one row.
\<close>

definition select_owned_plan :: "int \<Rightarrow> User \<Rightarrow> Db \<Rightarrow> LessonPlan option" where
  "select_owned_plan i user db =
     first (limit 1 (select_where (\<lambda>p. plan_id p = i \<and> plan_ownerId p = user_id user)
       (LessonPlans db)))"

text \<open>Truthiness of an optional number: undefined and 0 are falsy.\<close>

definition truthy :: "int option \<Rightarrow> bool" where
  "truthy n = (case n of None \<Rightarrow> False | Some k \<Rightarrow> k \<noteq> 0)"

subsection \<open>Plan actions\<close>

record CreatePlanInput =
  cp_title :: string
  cp_subject :: "string option"
  cp_gradeLevel :: "string option"
  cp_overview :: "string option"
  cp_durationMinutes :: "int option"
  cp_tags :: "string option"
  cp_status :: "plan_status option"

record UpdatePlanInput =
  up_id :: int
  up_title :: "string option"
  up_subject :: "string option"
  up_gradeLevel :: "string option"
  up_overview :: "string option"
  up_durationMinutes :: "int option"
  up_tags :: "string option"
  up_status :: "plan_status option"

record ArchivePlanInput =
  ap_id :: int

record ListMyPlansInput =
  lp_status :: "plan_status option"

record GetPlanWithDetailsInput =
  gp_id :: int

text \<open>The input schemas: what the types do not already say.\<close>

definition positive_optional :: "int option \<Rightarrow> bool" where
  "positive_optional n = (case n of None \<Rightarrow> True | Some k \<Rightarrow> 0 < k)"

definition createPlan_schema :: "CreatePlanInput \<Rightarrow> bool" where
  "createPlan_schema input =
     (1 \<le> length (cp_title input) \<and> positive_optional (cp_durationMinutes input))"

definition updatePlan_schema :: "UpdatePlanInput \<Rightarrow> bool" where
  "updatePlan_schema input =
     ((case up_title input of None \<Rightarrow> True | Some t \<Rightarrow> 1 \<le> length t) \<and>
      positive_optional (up_durationMinutes input))"

definition createPlan ::
  "CreatePlanInput \<Rightarrow> ActionAPIContext \<Rightarrow> nat \<Rightarrow> Db \<Rightarrow> (ActionError + LessonPlan option) \<times> Db" where
  "createPlan input context now db =
     (case requireUser context of
        Inl e \<Rightarrow> (Inl e, db)
      | Inr user \<Rightarrow>
          (let (returned, t) = insert_returning plan_id
                 (\<lambda>i. \<lparr>plan_id = i,
                       plan_ownerId = user_id user,
                       plan_title = cp_title input,
                       plan_subject = cp_subject input,
                       plan_gradeLevel = cp_gradeLevel input,
                       plan_overview = cp_overview input,
                       plan_durationMinutes = cp_durationMinutes input,
                       plan_tags = cp_tags input,
                       plan_status = (case cp_status input of None \<Rightarrow> Draft | Some s \<Rightarrow> s),
                       plan_createdAt = now,
                       plan_updatedAt = now\<rparr>)
                 (LessonPlans db)
           in (Inr (first returned), db\<lparr>LessonPlans := t\<rparr>)))"

text \<open>
  \<^verbatim>\<open>updatePlan\<close> builds its update from the entries of the input other than the key: one
  assignment per entry whose value is defined.
\<close>

datatype plan_assignment =
    SetTitle string
  | SetSubject string
  | SetGradeLevel string
  | SetOverview string
  | SetDurationMinutes int
  | SetTags string
  | SetStatus plan_status
  | SetUpdatedAt nat

fun set_plan :: "plan_assignment \<Rightarrow> LessonPlan \<Rightarrow> LessonPlan" where
  "set_plan (SetTitle v) p = p\<lparr>plan_title := v\<rparr>"
| "set_plan (SetSubject v) p = p\<lparr>plan_subject := Some v\<rparr>"
| "set_plan (SetGradeLevel v) p = p\<lparr>plan_gradeLevel := Some v\<rparr>"
| "set_plan (SetOverview v) p = p\<lparr>plan_overview := Some v\<rparr>"
| "set_plan (SetDurationMinutes v) p = p\<lparr>plan_durationMinutes := Some v\<rparr>"
| "set_plan (SetTags v) p = p\<lparr>plan_tags := Some v\<rparr>"
| "set_plan (SetStatus v) p = p\<lparr>plan_status := v\<rparr>"
| "set_plan (SetUpdatedAt v) p = p\<lparr>plan_updatedAt := v\<rparr>"

definition updatePlan_entries :: "UpdatePlanInput \<Rightarrow> plan_assignment option list" where
  "updatePlan_entries rest =
     [map_option SetTitle (up_title rest),
      map_option SetSubject (up_subject rest),
      map_option SetGradeLevel (up_gradeLevel rest),
      map_option SetOverview (up_overview rest),
      map_option SetDurationMinutes (up_durationMinutes rest),
      map_option SetTags (up_tags rest),
      map_option SetStatus (up_status rest)]"

text \<open>The loop over the entries: an entry is kept when its value is not undefined.\<close>

fun defined_entries :: "'a option list \<Rightarrow> 'a list \<Rightarrow> 'a list" where
  "defined_entries [] updateData = updateData"
| "defined_entries (None # es) updateData = defined_entries es updateData"
| "defined_entries (Some v # es) updateData = defined_entries es (updateData @ [v])"

definition updatePlan ::
  "UpdatePlanInput \<Rightarrow> ActionAPIContext \<Rightarrow> nat \<Rightarrow> Db \<Rightarrow> (ActionError + LessonPlan option) \<times> Db" where
  "updatePlan input context now db =
     (case requireUser context of
        Inl e \<Rightarrow> (Inl e, db)
      | Inr user \<Rightarrow>
          (case select_owned_plan (up_id input) user db of
             None \<Rightarrow> (Inl plan_not_found, db)
           | Some existing \<Rightarrow>
               (let updateData = defined_entries (updatePlan_entries input) [] in
                if length updateData = 0 then (Inr (Some existing), db)
                else
                  (let (returned, t) = update_returning
                         (fold set_plan (updateData @ [SetUpdatedAt now]))
                         (\<lambda>p. plan_id p = up_id input \<and> plan_ownerId p = user_id user)
                         (LessonPlans db)
                   in (Inr (first returned), db\<lparr>LessonPlans := t\<rparr>)))))"

definition archivePlan ::
  "ArchivePlanInput \<Rightarrow> ActionAPIContext \<Rightarrow> nat \<Rightarrow> Db \<Rightarrow> (ActionError + LessonPlan) \<times> Db" where
  "archivePlan input context now db =
     (case requireUser context of
        Inl e \<Rightarrow> (Inl e, db)
      | Inr user \<Rightarrow>
          (let (returned, t) = update_returning
                 (fold set_plan [SetStatus Archived, SetUpdatedAt now])
                 (\<lambda>p. plan_id p = ap_id input \<and> plan_ownerId p = user_id user)
                 (LessonPlans db);
               db' = db\<lparr>LessonPlans := t\<rparr>
           in case first returned of
                None \<Rightarrow> (Inl plan_not_found, db')
              | Some plan \<Rightarrow> (Inr plan, db')))"

text \<open>\<^verbatim>\<open>input?.status\<close> of an input that may itself be undefined.\<close>

definition listMyPlans_status :: "ListMyPlansInput option \<Rightarrow> plan_status option" where
  "listMyPlans_status input = (case input of None \<Rightarrow> None | Some i \<Rightarrow> lp_status i)"

definition listMyPlans ::
  "ListMyPlansInput option \<Rightarrow> ActionAPIContext \<Rightarrow> nat \<Rightarrow> Db \<Rightarrow> (ActionError + LessonPlan list) \<times> Db" where
  "listMyPlans input context now db =
     (case requireUser context of
        Inl e \<Rightarrow> (Inl e, db)
      | Inr user \<Rightarrow>
          (let plans = select_where (\<lambda>p. plan_ownerId p = user_id user) (LessonPlans db);
               filtered = (case listMyPlans_status input of
                             Some s \<Rightarrow> filter (\<lambda>plan. plan_status plan = s) plans
                           | None \<Rightarrow> plans)
           in (Inr filtered, db)))"

record PlanWithDetails =
  details_plan :: LessonPlan
  details_objectives :: "LessonObjective list"
  details_steps :: "LessonStep list"
  details_materials :: "LessonMaterial list"

definition getPlanWithDetails ::
  "GetPlanWithDetailsInput \<Rightarrow> ActionAPIContext \<Rightarrow> nat \<Rightarrow> Db \<Rightarrow> (ActionError + PlanWithDetails) \<times> Db" where
  "getPlanWithDetails input context now db =
     (case requireUser context of
        Inl e \<Rightarrow> (Inl e, db)
      | Inr user \<Rightarrow>
          (case select_owned_plan (gp_id input) user db of
             None \<Rightarrow> (Inl plan_not_found, db)
           | Some plan \<Rightarrow>
               (Inr \<lparr>details_plan = plan,
                     details_objectives =
                       select_where (\<lambda>r. objective_planId r = gp_id input) (LessonObjectives db),
                     details_steps =
                       select_where (\<lambda>r. step_planId r = gp_id input) (LessonSteps db),
                     details_materials =
                       select_where (\<lambda>r. material_planId r = gp_id input) (LessonMaterials db)\<rparr>,
                db)))"

subsection \<open>Objective, step and material actions\<close>

text \<open>
  \<^verbatim>\<open>update().set(values)\<close> leaves a column alone when the value given for it is
  undefined; \<^verbatim>\<open>insert().values(values)\<close> stores null for it when the column has no
  default.
\<close>

definition set_optional :: "'a option \<Rightarrow> 'a option \<Rightarrow> 'a option" where
  "set_optional new old = (case new of None \<Rightarrow> old | Some v \<Rightarrow> Some v)"

record SaveObjectiveInput =
  so_id :: "int option"
  so_planId :: int
  so_text :: string
  so_order :: "int option"

record DeleteObjectiveInput =
  do_id :: int
  do_planId :: int

definition saveObjective_schema :: "SaveObjectiveInput \<Rightarrow> bool" where
  "saveObjective_schema input =
     (1 \<le> length (so_text input) \<and> positive_optional (so_order input))"

definition saveObjective ::
  "SaveObjectiveInput \<Rightarrow> ActionAPIContext \<Rightarrow> nat \<Rightarrow> Db \<Rightarrow>
     (ActionError + LessonObjective option) \<times> Db" where
  "saveObjective input context now db =
     (case requireUser context of
        Inl e \<Rightarrow> (Inl e, db)
      | Inr user \<Rightarrow>
          (case select_owned_plan (so_planId input) user db of
             None \<Rightarrow> (Inl plan_not_found, db)
           | Some plan \<Rightarrow>
               (let order = (case so_order input of None \<Rightarrow> 1 | Some n \<Rightarrow> n) in
                if truthy (so_id input) then
                  (case first (limit 1 (select_where
                           (\<lambda>r. so_id input = Some (objective_id r)) (LessonObjectives db))) of
                     None \<Rightarrow> (Inl (ActionError NOT_FOUND ''Objective not found.''), db)
                   | Some existing \<Rightarrow>
                       if objective_planId existing \<noteq> so_planId input
                       then (Inl (ActionError NOT_FOUND ''Objective not found.''), db)
                       else
                         (let (returned, t) = update_returning
                                (\<lambda>r. r\<lparr>objective_planId := so_planId input,
                                       objective_text := so_text input,
                                       objective_order := order\<rparr>)
                                (\<lambda>r. so_id input = Some (objective_id r))
                                (LessonObjectives db)
                          in (Inr (first returned), db\<lparr>LessonObjectives := t\<rparr>)))
                else
                  (let (returned, t) = insert_returning objective_id
                         (\<lambda>i. \<lparr>objective_id = i,
                               objective_planId = so_planId input,
                               objective_text = so_text input,
                               objective_order = order,
                               objective_createdAt = now\<rparr>)
                         (LessonObjectives db)
                   in (Inr (first returned), db\<lparr>LessonObjectives := t\<rparr>)))))"

definition deleteObjective ::
  "DeleteObjectiveInput \<Rightarrow> ActionAPIContext \<Rightarrow> nat \<Rightarrow> Db \<Rightarrow>
     (ActionError + LessonObjective) \<times> Db" where
  "deleteObjective input context now db =
     (case requireUser context of
        Inl e \<Rightarrow> (Inl e, db)
      | Inr user \<Rightarrow>
          (case select_owned_plan (do_planId input) user db of
             None \<Rightarrow> (Inl plan_not_found, db)
           | Some plan \<Rightarrow>
               (let (returned, t) = delete_returning
                      (\<lambda>r. objective_id r = do_id input \<and> objective_planId r = do_planId input)
                      (LessonObjectives db);
                    db' = db\<lparr>LessonObjectives := t\<rparr>
                in case first returned of
                     None \<Rightarrow> (Inl (ActionError NOT_FOUND ''Objective not found.''), db')
                   | Some deleted \<Rightarrow> (Inr deleted, db'))))"

record SaveStepInput =
  ss_id :: "int option"
  ss_planId :: int
  ss_title :: "string option"
  ss_description :: string
  ss_durationMinutes :: "int option"
  ss_order :: "int option"

record DeleteStepInput =
  ds_id :: int
  ds_planId :: int

definition saveStep_schema :: "SaveStepInput \<Rightarrow> bool" where
  "saveStep_schema input =
     (1 \<le> length (ss_description input) \<and> positive_optional (ss_durationMinutes input) \<and>
      positive_optional (ss_order input))"

definition saveStep ::
  "SaveStepInput \<Rightarrow> ActionAPIContext \<Rightarrow> nat \<Rightarrow> Db \<Rightarrow> (ActionError + LessonStep option) \<times> Db" where
  "saveStep input context now db =
     (case requireUser context of
        Inl e \<Rightarrow> (Inl e, db)
      | Inr user \<Rightarrow>
          (case select_owned_plan (ss_planId input) user db of
             None \<Rightarrow> (Inl plan_not_found, db)
           | Some plan \<Rightarrow>
               (let order = (case ss_order input of None \<Rightarrow> 1 | Some n \<Rightarrow> n) in
                if truthy (ss_id input) then
                  (case first (limit 1 (select_where
                           (\<lambda>r. ss_id input = Some (step_id r)) (LessonSteps db))) of
                     None \<Rightarrow> (Inl (ActionError NOT_FOUND ''Lesson step not found.''), db)
                   | Some existing \<Rightarrow>
                       if step_planId existing \<noteq> ss_planId input
                       then (Inl (ActionError NOT_FOUND ''Lesson step not found.''), db)
                       else
                         (let (returned, t) = update_returning
                                (\<lambda>r. r\<lparr>step_planId := ss_planId input,
                                       step_title := set_optional (ss_title input) (step_title r),
                                       step_description := ss_description input,
                                       step_durationMinutes :=
                                         set_optional (ss_durationMinutes input)
                                           (step_durationMinutes r),
                                       step_order := order\<rparr>)
                                (\<lambda>r. ss_id input = Some (step_id r))
                                (LessonSteps db)
                          in (Inr (first returned), db\<lparr>LessonSteps := t\<rparr>)))
                else
                  (let (returned, t) = insert_returning step_id
                         (\<lambda>i. \<lparr>step_id = i,
                               step_planId = ss_planId input,
                               step_title = ss_title input,
                               step_description = ss_description input,
                               step_durationMinutes = ss_durationMinutes input,
                               step_order = order,
                               step_createdAt = now\<rparr>)
                         (LessonSteps db)
                   in (Inr (first returned), db\<lparr>LessonSteps := t\<rparr>)))))"

definition deleteStep ::
  "DeleteStepInput \<Rightarrow> ActionAPIContext \<Rightarrow> nat \<Rightarrow> Db \<Rightarrow> (ActionError + LessonStep) \<times> Db" where
  "deleteStep input context now db =
     (case requireUser context of
        Inl e \<Rightarrow> (Inl e, db)
      | Inr user \<Rightarrow>
          (case select_owned_plan (ds_planId input) user db of
             None \<Rightarrow> (Inl plan_not_found, db)
           | Some plan \<Rightarrow>
               (let (returned, t) = delete_returning
                      (\<lambda>r. step_id r = ds_id input \<and> step_planId r = ds_planId input)
                      (LessonSteps db);
                    db' = db\<lparr>LessonSteps := t\<rparr>
                in case first returned of
                     None \<Rightarrow> (Inl (ActionError NOT_FOUND ''Lesson step not found.''), db')
                   | Some deleted \<Rightarrow> (Inr deleted, db'))))"

record SaveMaterialInput =
  sm_id :: "int option"
  sm_planId :: int
  sm_name :: string
  sm_type :: "string option"
  sm_url :: "string option"

record DeleteMaterialInput =
  dm_id :: int
  dm_planId :: int

text \<open>
  The schema of \<^verbatim>\<open>saveMaterial\<close> asks the validation library whether the url is one;
  that test is the parameter \<open>is_url\<close>.
\<close>

definition saveMaterial_schema :: "(string \<Rightarrow> bool) \<Rightarrow> SaveMaterialInput \<Rightarrow> bool" where
  "saveMaterial_schema is_url input =
     (1 \<le> length (sm_name input) \<and>
      (case sm_url input of None \<Rightarrow> True | Some u \<Rightarrow> is_url u))"

definition saveMaterial ::
  "SaveMaterialInput \<Rightarrow> ActionAPIContext \<Rightarrow> nat \<Rightarrow> Db \<Rightarrow>
     (ActionError + LessonMaterial option) \<times> Db" where
  "saveMaterial input context now db =
     (case requireUser context of
        Inl e \<Rightarrow> (Inl e, db)
      | Inr user \<Rightarrow>
          (case select_owned_plan (sm_planId input) user db of
             None \<Rightarrow> (Inl plan_not_found, db)
           | Some plan \<Rightarrow>
               (if truthy (sm_id input) then
                  (case first (limit 1 (select_where
                           (\<lambda>r. sm_id input = Some (material_id r)) (LessonMaterials db))) of
                     None \<Rightarrow> (Inl (ActionError NOT_FOUND ''Lesson material not found.''), db)
                   | Some existing \<Rightarrow>
                       if material_planId existing \<noteq> sm_planId input
                       then (Inl (ActionError NOT_FOUND ''Lesson material not found.''), db)
                       else
                         (let (returned, t) = update_returning
                                (\<lambda>r. r\<lparr>material_planId := sm_planId input,
                                       material_name := sm_name input,
                                       material_type := set_optional (sm_type input) (material_type r),
                                       material_url := set_optional (sm_url input) (material_url r)\<rparr>)
                                (\<lambda>r. sm_id input = Some (material_id r))
                                (LessonMaterials db)
                          in (Inr (first returned), db\<lparr>LessonMaterials := t\<rparr>)))
                else
                  (let (returned, t) = insert_returning material_id
                         (\<lambda>i. \<lparr>material_id = i,
                               material_planId = sm_planId input,
                               material_name = sm_name input,
                               material_type = sm_type input,
                               material_url = sm_url input,
                               material_createdAt = now\<rparr>)
                         (LessonMaterials db)
                   in (Inr (first returned), db\<lparr>LessonMaterials := t\<rparr>)))))"

definition deleteMaterial ::
  "DeleteMaterialInput \<Rightarrow> ActionAPIContext \<Rightarrow> nat \<Rightarrow> Db \<Rightarrow>
     (ActionError + LessonMaterial) \<times> Db" where
  "deleteMaterial input context now db =
     (case requireUser context of
        Inl e \<Rightarrow> (Inl e, db)
      | Inr user \<Rightarrow>
          (case select_owned_plan (dm_planId input) user db of
             None \<Rightarrow> (Inl plan_not_found, db)
           | Some plan \<Rightarrow>
               (let (returned, t) = delete_returning
                      (\<lambda>r. material_id r = dm_id input \<and> material_planId r = dm_planId input)
                      (LessonMaterials db);
                    db' = db\<lparr>LessonMaterials := t\<rparr>
                in case first returned of
                     None \<Rightarrow> (Inl (ActionError NOT_FOUND ''Lesson material not found.''), db')
                   | Some deleted \<Rightarrow> (Inr deleted, db'))))"

subsection \<open>Job actions\<close>

record CreateJobInput =
  cj_planId :: "int option"
  cj_jobType :: "job_type option"
  cj_input :: "json option"
  cj_output :: "json option"
  cj_status :: "job_status option"

record UpdateJobInput =
  uj_id :: int
  uj_output :: "json option"
  uj_status :: "job_status option"

record ListJobsInput =
  lj_planId :: "int option"
  lj_status :: "job_status option"

definition createJob ::
  "CreateJobInput \<Rightarrow> ActionAPIContext \<Rightarrow> nat \<Rightarrow> Db \<Rightarrow> (ActionError + LessonJob option) \<times> Db" where
  "createJob input context now db =
     (case requireUser context of
        Inl e \<Rightarrow> (Inl e, db)
      | Inr user \<Rightarrow>
          if truthy (cj_planId input) \<and>
             select_owned_plan (the (cj_planId input)) user db = None
          then (Inl plan_not_found, db)
          else
            (let (returned, t) = insert_returning job_id
                   (\<lambda>i. \<lparr>job_id = i,
                         job_planId = cj_planId input,
                         job_userId = Some (user_id user),
                         job_jobType = (case cj_jobType input of None \<Rightarrow> Full | Some k \<Rightarrow> k),
                         job_input = cj_input input,
                         job_output = cj_output input,
                         job_status = (case cj_status input of None \<Rightarrow> Pending | Some s \<Rightarrow> s),
                         job_createdAt = now\<rparr>)
                   (LessonJobs db)
             in (Inr (first returned), db\<lparr>LessonJobs := t\<rparr>)))"

datatype job_assignment = SetOutput json | SetJobStatus job_status

fun set_job :: "job_assignment \<Rightarrow> LessonJob \<Rightarrow> LessonJob" where
  "set_job (SetOutput v) j = j\<lparr>job_output := Some v\<rparr>"
| "set_job (SetJobStatus v) j = j\<lparr>job_status := v\<rparr>"

text \<open>The job with the given key that belongs to the caller, at most one row.\<close>

definition select_owned_job :: "int \<Rightarrow> User \<Rightarrow> Db \<Rightarrow> LessonJob option" where
  "select_owned_job i user db =
     first (limit 1 (select_where (\<lambda>j. job_id j = i \<and> job_userId j = Some (user_id user))
       (LessonJobs db)))"

definition updateJob ::
  "UpdateJobInput \<Rightarrow> ActionAPIContext \<Rightarrow> nat \<Rightarrow> Db \<Rightarrow> (ActionError + LessonJob option) \<times> Db" where
  "updateJob input context now db =
     (case requireUser context of
        Inl e \<Rightarrow> (Inl e, db)
      | Inr user \<Rightarrow>
          (case select_owned_job (uj_id input) user db of
             None \<Rightarrow> (Inl (ActionError NOT_FOUND ''Job not found.''), db)
           | Some existing \<Rightarrow>
               (let updateData =
                      (case uj_output input of None \<Rightarrow> [] | Some v \<Rightarrow> [SetOutput v]) @
                      (case uj_status input of None \<Rightarrow> [] | Some s \<Rightarrow> [SetJobStatus s])
                in if length updateData = 0 then (Inr (Some existing), db)
                   else
                     (let (returned, t) = update_returning (fold set_job updateData)
                            (\<lambda>j. job_id j = uj_id input) (LessonJobs db)
                      in (Inr (first returned), db\<lparr>LessonJobs := t\<rparr>)))))"

definition listJobs_planId :: "ListJobsInput option \<Rightarrow> int option" where
  "listJobs_planId input = (case input of None \<Rightarrow> None | Some i \<Rightarrow> lj_planId i)"

definition listJobs_status :: "ListJobsInput option \<Rightarrow> job_status option" where
  "listJobs_status input = (case input of None \<Rightarrow> None | Some i \<Rightarrow> lj_status i)"

definition listJobs ::
  "ListJobsInput option \<Rightarrow> ActionAPIContext \<Rightarrow> nat \<Rightarrow> Db \<Rightarrow> (ActionError + LessonJob list) \<times> Db" where
  "listJobs input context now db =
     (case requireUser context of
        Inl e \<Rightarrow> (Inl e, db)
      | Inr user \<Rightarrow>
          (let plans0 = select_where (\<lambda>p. plan_ownerId p = user_id user) (LessonPlans db);
               plans = (if truthy (listJobs_planId input)
                        then filter (\<lambda>p. Some (plan_id p) = listJobs_planId input) plans0
                        else plans0)
           in if truthy (listJobs_planId input) \<and> length plans = 0
              then (Inl plan_not_found, db)
              else
                (let allowedPlanIds = set (map plan_id plans);
                     jobs = select_where (\<lambda>j. job_userId j = Some (user_id user)) (LessonJobs db);
                     filtered = filter
                       (\<lambda>job.
                          (let matchesPlan =
                                 (if truthy (job_planId job)
                                  then the (job_planId job) \<in> allowedPlanIds else True);
                               matchesStatus =
                                 (case listJobs_status input of
                                    Some s \<Rightarrow> job_status job = s | None \<Rightarrow> True)
                           in matchesPlan \<and> matchesStatus))
                       jobs
                 in (Inr filtered, db))))"

subsection \<open>Sequences of calls\<close>

text \<open>
  The server object: one request per action.  A call leaves the store its handler
  returns; a history is a list of calls, each with its own caller and clock reading.
\<close>

datatype request =
    CreatePlan CreatePlanInput
  | UpdatePlan UpdatePlanInput
  | ArchivePlan ArchivePlanInput
  | ListMyPlans "ListMyPlansInput option"
  | GetPlanWithDetails GetPlanWithDetailsInput
  | SaveObjective SaveObjectiveInput
  | DeleteObjective DeleteObjectiveInput
  | SaveStep SaveStepInput
  | DeleteStep DeleteStepInput
  | SaveMaterial SaveMaterialInput
  | DeleteMaterial DeleteMaterialInput
  | CreateJob CreateJobInput
  | UpdateJob UpdateJobInput
  | ListJobs "ListJobsInput option"

fun call :: "request \<Rightarrow> ActionAPIContext \<Rightarrow> nat \<Rightarrow> Db \<Rightarrow> Db" where
  "call (CreatePlan input) context now db = snd (createPlan input context now db)"
| "call (UpdatePlan input) context now db = snd (updatePlan input context now db)"
| "call (ArchivePlan input) context now db = snd (archivePlan input context now db)"
| "call (ListMyPlans input) context now db = snd (listMyPlans input context now db)"
| "call (GetPlanWithDetails input) context now db = snd (getPlanWithDetails input context now db)"
| "call (SaveObjective input) context now db = snd (saveObjective input context now db)"
| "call (DeleteObjective input) context now db = snd (deleteObjective input context now db)"
| "call (SaveStep input) context now db = snd (saveStep input context now db)"
| "call (DeleteStep input) context now db = snd (deleteStep input context now db)"
| "call (SaveMaterial input) context now db = snd (saveMaterial input context now db)"
| "call (DeleteMaterial input) context now db = snd (deleteMaterial input context now db)"
| "call (CreateJob input) context now db = snd (createJob input context now db)"
| "call (UpdateJob input) context now db = snd (updateJob input context now db)"
| "call (ListJobs input) context now db = snd (listJobs input context now db)"

fun run :: "(request \<times> ActionAPIContext \<times> nat) list \<Rightarrow> Db \<Rightarrow> Db" where
  "run [] db = db"
| "run ((request, context, now) # calls) db = run calls (call request context now db)"

text \<open>The context of a request made by the signed-in user with the given identifier.\<close>

definition signed_in :: "string \<Rightarrow> ActionAPIContext" where
  "signed_in u = \<lparr>context_locals = Some \<lparr>locals_user = Some \<lparr>user_id = u\<rparr>\<rparr>\<rparr>"

text \<open>The caller owns a plan with the given key.\<close>

definition owns_plan :: "User \<Rightarrow> int \<Rightarrow> Db \<Rightarrow> bool" where
  "owns_plan user i db =
     list_ex (\<lambda>p. plan_id p = i \<and> plan_ownerId p = user_id user) (rows (LessonPlans db))"

subsection \<open>Keys of a table and archived plans\<close>

text \<open>
  The keys of a table are those of an auto-increment primary key: pairwise different and
  positive, with a sequence that is not negative.  The empty store is such a store and
  every call keeps it one.
\<close>

definition keys_ok :: "('r \<Rightarrow> int) \<Rightarrow> 'r table \<Rightarrow> bool" where
  "keys_ok key t =
     (distinct (map key (rows t)) \<and> list_all (\<lambda>r. 0 < key r) (rows t) \<and> 0 \<le> seq t)"

definition store_ok :: "Db \<Rightarrow> bool" where
  "store_ok db =
     (keys_ok plan_id (LessonPlans db) \<and> keys_ok objective_id (LessonObjectives db) \<and>
      keys_ok step_id (LessonSteps db) \<and> keys_ok material_id (LessonMaterials db) \<and>
      keys_ok job_id (LessonJobs db))"

text \<open>The plan with key \<open>i\<close> is in the store and its status is archived.\<close>

definition plan_archived :: "int \<Rightarrow> Db \<Rightarrow> bool" where
  "plan_archived i db =
     (list_ex (\<lambda>p. plan_id p = i) (rows (LessonPlans db)) \<and>
      list_all (\<lambda>p. plan_id p \<noteq> i \<or> plan_status p = Archived) (rows (LessonPlans db)))"

text \<open>
  A request to update the plan with key \<open>i\<close> that supplies the status draft or published,
  made by a signed-in caller who owns a plan with that key in the store \<open>db\<close>.
\<close>

fun sets_status_back :: "int \<Rightarrow> Db \<Rightarrow> request \<Rightarrow> ActionAPIContext \<Rightarrow> bool" where
  "sets_status_back i db (UpdatePlan input) context =
     (up_id input = i \<and> (up_status input = Some Draft \<or> up_status input = Some Published) \<and>
      (case requireUser context of Inl e \<Rightarrow> False | Inr user \<Rightarrow> owns_plan user i db))"
| "sets_status_back i db request context = False"

subsection \<open>A store for the examples\<close>

text \<open>
  Two users, each with one plan and one objective, step and material in it; the second
  plan is archived.  The first user has a job with no plan and a job for her plan.
\<close>

definition alice :: ActionAPIContext where
  "alice = signed_in ''alice''"

definition bob :: ActionAPIContext where
  "bob = signed_in ''bob''"

definition no_plan_fields :: "int \<Rightarrow> UpdatePlanInput" where
  "no_plan_fields i = \<lparr>up_id = i, up_title = None, up_subject = None, up_gradeLevel = None,
     up_overview = None, up_durationMinutes = None, up_tags = None, up_status = None\<rparr>"

definition new_plan :: "string \<Rightarrow> CreatePlanInput" where
  "new_plan title = \<lparr>cp_title = title, cp_subject = None, cp_gradeLevel = None,
     cp_overview = None, cp_durationMinutes = None, cp_tags = None, cp_status = None\<rparr>"

definition demo_history :: "(request \<times> ActionAPIContext \<times> nat) list" where
  "demo_history =
    [(CreatePlan (new_plan ''Photosynthesis''), alice, 1),
     (CreatePlan (new_plan ''Fractions''), bob, 2),
     (ArchivePlan \<lparr>ap_id = 2\<rparr>, bob, 3),
     (SaveObjective \<lparr>so_id = None, so_planId = 1, so_text = ''Explain photosynthesis'',
        so_order = Some 3\<rparr>, alice, 4),
     (SaveObjective \<lparr>so_id = None, so_planId = 2, so_text = ''Add fractions'',
        so_order = None\<rparr>, bob, 5),
     (SaveStep \<lparr>ss_id = None, ss_planId = 1, ss_title = Some ''Introduction'',
        ss_description = ''Show a leaf'', ss_durationMinutes = Some 10, ss_order = Some 2\<rparr>,
        alice, 6),
     (SaveStep \<lparr>ss_id = None, ss_planId = 2, ss_title = None,
        ss_description = ''Cut a pie'', ss_durationMinutes = None, ss_order = None\<rparr>, bob, 7),
     (SaveMaterial \<lparr>sm_id = None, sm_planId = 1, sm_name = ''Slides'', sm_type = Some ''pdf'',
        sm_url = None\<rparr>, alice, 8),
     (SaveMaterial \<lparr>sm_id = None, sm_planId = 2, sm_name = ''Worksheet'', sm_type = None,
        sm_url = None\<rparr>, bob, 9),
     (CreateJob \<lparr>cj_planId = None, cj_jobType = None, cj_input = None, cj_output = None,
        cj_status = None\<rparr>, alice, 10),
     (CreateJob \<lparr>cj_planId = Some 1, cj_jobType = Some Outline, cj_input = Some (JString ''leaf''),
        cj_output = None, cj_status = Some Completed\<rparr>, alice, 11)]"

definition demo_db :: Db where
  "demo_db =
    \<lparr>LessonPlans = \<lparr>rows =
       [\<lparr>plan_id = 1, plan_ownerId = ''alice'', plan_title = ''Photosynthesis'',
          plan_subject = None, plan_gradeLevel = None, plan_overview = None,
          plan_durationMinutes = None, plan_tags = None, plan_status = Draft,
          plan_createdAt = 1, plan_updatedAt = 1\<rparr>,
        \<lparr>plan_id = 2, plan_ownerId = ''bob'', plan_title = ''Fractions'',
          plan_subject = None, plan_gradeLevel = None, plan_overview = None,
          plan_durationMinutes = None, plan_tags = None, plan_status = Archived,
          plan_createdAt = 2, plan_updatedAt = 3\<rparr>], seq = 2\<rparr>,
     LessonObjectives = \<lparr>rows =
       [\<lparr>objective_id = 1, objective_planId = 1, objective_text = ''Explain photosynthesis'',
          objective_order = 3, objective_createdAt = 4\<rparr>,
        \<lparr>objective_id = 2, objective_planId = 2, objective_text = ''Add fractions'',
          objective_order = 1, objective_createdAt = 5\<rparr>], seq = 2\<rparr>,
     LessonSteps = \<lparr>rows =
       [\<lparr>step_id = 1, step_planId = 1, step_title = Some ''Introduction'',
          step_description = ''Show a leaf'', step_durationMinutes = Some 10, step_order = 2,
          step_createdAt = 6\<rparr>,
        \<lparr>step_id = 2, step_planId = 2, step_title = None, step_description = ''Cut a pie'',
          step_durationMinutes = None, step_order = 1, step_createdAt = 7\<rparr>], seq = 2\<rparr>,
     LessonMaterials = \<lparr>rows =
       [\<lparr>material_id = 1, material_planId = 1, material_name = ''Slides'',
          material_type = Some ''pdf'', material_url = None, material_createdAt = 8\<rparr>,
        \<lparr>material_id = 2, material_planId = 2, material_name = ''Worksheet'',
          material_type = None, material_url = None, material_createdAt = 9\<rparr>], seq = 2\<rparr>,
     LessonJobs = \<lparr>rows =
       [\<lparr>job_id = 1, job_planId = None, job_userId = Some ''alice'', job_jobType = Full,
          job_input = None, job_output = None, job_status = Pending, job_createdAt = 10\<rparr>,
        \<lparr>job_id = 2, job_planId = Some 1, job_userId = Some ''alice'', job_jobType = Outline,
          job_input = Some (JString ''leaf''), job_output = None, job_status = Completed,
          job_createdAt = 11\<rparr>], seq = 2\<rparr>\<rparr>"

section \<open>Facts about the store operations\<close>

lemma first_limit [simp]: "first (limit (Suc 0) rs) = first rs"
  by (cases rs) (simp_all add: first_def limit_def)

lemma first_filter_None: "first (filter P rs) = None \<longleftrightarrow> \<not> list_ex P rs"
  by (induction rs) (auto simp: first_def split: list.splits)

lemma first_Nil [simp]: "first [] = None"
  by (simp add: first_def)

lemma first_Cons [simp]: "first (r # rs) = Some r"
  by (simp add: first_def)

lemma select_owned_plan_None:
  "select_owned_plan i user db = None \<longleftrightarrow> \<not> owns_plan user i db"
  by (simp add: select_owned_plan_def owns_plan_def select_where_def first_filter_None)

lemma saveObjective_not_owner:
  "requireUser ctx = Inr user \<Longrightarrow> \<not> owns_plan user (so_planId input) db \<Longrightarrow>
   saveObjective input ctx now db = (Inl plan_not_found, db)"
  by (simp add: saveObjective_def select_owned_plan_None[symmetric])

lemma deleteObjective_not_owner:
  "requireUser ctx = Inr user \<Longrightarrow> \<not> owns_plan user (do_planId input) db \<Longrightarrow>
   deleteObjective input ctx now db = (Inl plan_not_found, db)"
  by (simp add: deleteObjective_def select_owned_plan_None[symmetric])

lemma saveStep_not_owner:
  "requireUser ctx = Inr user \<Longrightarrow> \<not> owns_plan user (ss_planId input) db \<Longrightarrow>
   saveStep input ctx now db = (Inl plan_not_found, db)"
  by (simp add: saveStep_def select_owned_plan_None[symmetric])

lemma deleteStep_not_owner:
  "requireUser ctx = Inr user \<Longrightarrow> \<not> owns_plan user (ds_planId input) db \<Longrightarrow>
   deleteStep input ctx now db = (Inl plan_not_found, db)"
  by (simp add: deleteStep_def select_owned_plan_None[symmetric])

lemma saveMaterial_not_owner:
  "requireUser ctx = Inr user \<Longrightarrow> \<not> owns_plan user (sm_planId input) db \<Longrightarrow>
   saveMaterial input ctx now db = (Inl plan_not_found, db)"
  by (simp add: saveMaterial_def select_owned_plan_None[symmetric])

lemma deleteMaterial_not_owner:
  "requireUser ctx = Inr user \<Longrightarrow> \<not> owns_plan user (dm_planId input) db \<Longrightarrow>
   deleteMaterial input ctx now db = (Inl plan_not_found, db)"
  by (simp add: deleteMaterial_def select_owned_plan_None[symmetric])

lemma delete_again:
  "delete_returning P t = (returned, t') \<Longrightarrow> delete_returning P t' = ([], t')"
  by (auto simp: delete_returning_def filter_empty_conv)

lemma defined_entries_all_None:
  "list_all (\<lambda>e. e = None) es \<Longrightarrow> defined_entries es acc = acc"
  by (induction es acc rule: defined_entries.induct) simp_all

lemma updatePlan_no_fields_store:
  "list_all (\<lambda>e. e = None) (updatePlan_entries input) \<Longrightarrow>
   snd (updatePlan input ctx now db) = db"
  by (simp add: updatePlan_def defined_entries_all_None split: sum.splits option.splits)

lemma updatePlan_no_fields_result:
  "list_all (\<lambda>e. e = None) (updatePlan_entries input) \<Longrightarrow>
   requireUser ctx = Inr user \<Longrightarrow>
   select_owned_plan (up_id input) user db = Some existing \<Longrightarrow>
   updatePlan input ctx now db = (Inr (Some existing), db)"
  by (simp add: updatePlan_def defined_entries_all_None)

lemma updateJob_no_fields_store:
  "uj_output input = None \<Longrightarrow> uj_status input = None \<Longrightarrow>
   snd (updateJob input ctx now db) = db"
  by (simp add: updateJob_def split: sum.splits option.splits)

lemma updateJob_no_fields_result:
  "uj_output input = None \<Longrightarrow> uj_status input = None \<Longrightarrow>
   requireUser ctx = Inr user \<Longrightarrow>
   select_owned_job (uj_id input) user db = Some existing \<Longrightarrow>
   updateJob input ctx now db = (Inr (Some existing), db)"
  by (simp add: updateJob_def)

lemma insert_returning_eq:
  "insert_returning key mk t =
     ([mk (next_id key t)], \<lparr>rows = rows t @ [mk (next_id key t)], seq = next_id key t\<rparr>)"
  by (simp add: insert_returning_def Let_def)

lemma fold_max_ge: "(a::int) \<le> fold max xs a"
  by (induction xs arbitrary: a) (auto intro: order_trans[OF max.cobounded2])

lemma fold_max_ge_elem: "(x::int) \<in> set xs \<Longrightarrow> x \<le> fold max xs a"
proof (induction xs arbitrary: a)
  case Nil
  then show ?case by simp
next
  case (Cons y ys)
  show ?case
  proof (cases "x = y")
    case True
    have "y \<le> max y a" by simp
    also have "\<dots> \<le> fold max ys (max y a)" by (rule fold_max_ge)
    finally show ?thesis using True by simp
  next
    case False
    with Cons show ?thesis by simp
  qed
qed

lemma next_id_fresh: "r \<in> set (rows t) \<Longrightarrow> key r < next_id key t"
  using fold_max_ge_elem[of "key r" "map key (rows t)" "seq t"] by (simp add: next_id_def)

lemma next_id_gt_seq: "seq t < next_id key t"
  using fold_max_ge[of "seq t" "map key (rows t)"] by (simp add: next_id_def)

lemma truthy_zero [simp]: "truthy (Some 0) = False" "truthy None = False"
  by (simp_all add: truthy_def)

lemma saveObjective_id_zero:
  "saveObjective (input\<lparr>so_id := Some 0\<rparr>) ctx now db =
   saveObjective (input\<lparr>so_id := None\<rparr>) ctx now db"
  by (simp add: saveObjective_def Let_def split: sum.splits option.splits)

lemma saveStep_id_zero:
  "saveStep (input\<lparr>ss_id := Some 0\<rparr>) ctx now db =
   saveStep (input\<lparr>ss_id := None\<rparr>) ctx now db"
  by (simp add: saveStep_def Let_def split: sum.splits option.splits)

lemma saveMaterial_id_zero:
  "saveMaterial (input\<lparr>sm_id := Some 0\<rparr>) ctx now db =
   saveMaterial (input\<lparr>sm_id := None\<rparr>) ctx now db"
  by (simp add: saveMaterial_def Let_def split: sum.splits option.splits)

lemma owns_plan_select:
  "owns_plan user i db \<Longrightarrow> \<exists>plan. select_owned_plan i user db = Some plan"
  using select_owned_plan_None[of i user db] by auto

lemma saveObjective_create:
  assumes "requireUser ctx = Inr user" and "owns_plan user (so_planId input) db"
    and "\<not> truthy (so_id input)"
  shows "\<exists>r. saveObjective input ctx now db =
            (Inr (Some r), db\<lparr>LessonObjectives :=
               \<lparr>rows = rows (LessonObjectives db) @ [r], seq = objective_id r\<rparr>\<rparr>) \<and>
          objective_id r \<notin> objective_id ` set (rows (LessonObjectives db)) \<and>
          objective_planId r = so_planId input \<and> objective_text r = so_text input"
proof -
  from owns_plan_select[OF assms(2)] obtain plan
    where "select_owned_plan (so_planId input) user db = Some plan" ..
  moreover have "next_id objective_id (LessonObjectives db)
      \<notin> objective_id ` set (rows (LessonObjectives db))"
    using next_id_fresh[of _ "LessonObjectives db" objective_id] by force
  ultimately show ?thesis
    using assms(1,3) by (simp add: saveObjective_def insert_returning_eq Let_def)
qed

lemma saveStep_create:
  assumes "requireUser ctx = Inr user" and "owns_plan user (ss_planId input) db"
    and "\<not> truthy (ss_id input)"
  shows "\<exists>r. saveStep input ctx now db =
            (Inr (Some r), db\<lparr>LessonSteps :=
               \<lparr>rows = rows (LessonSteps db) @ [r], seq = step_id r\<rparr>\<rparr>) \<and>
          step_id r \<notin> step_id ` set (rows (LessonSteps db)) \<and>
          step_planId r = ss_planId input \<and> step_description r = ss_description input"
proof -
  from owns_plan_select[OF assms(2)] obtain plan
    where "select_owned_plan (ss_planId input) user db = Some plan" ..
  moreover have "next_id step_id (LessonSteps db) \<notin> step_id ` set (rows (LessonSteps db))"
    using next_id_fresh[of _ "LessonSteps db" step_id] by force
  ultimately show ?thesis
    using assms(1,3) by (simp add: saveStep_def insert_returning_eq Let_def)
qed

lemma saveMaterial_create:
  assumes "requireUser ctx = Inr user" and "owns_plan user (sm_planId input) db"
    and "\<not> truthy (sm_id input)"
  shows "\<exists>r. saveMaterial input ctx now db =
            (Inr (Some r), db\<lparr>LessonMaterials :=
               \<lparr>rows = rows (LessonMaterials db) @ [r], seq = material_id r\<rparr>\<rparr>) \<and>
          material_id r \<notin> material_id ` set (rows (LessonMaterials db)) \<and>
          material_planId r = sm_planId input \<and> material_name r = sm_name input"
proof -
  from owns_plan_select[OF assms(2)] obtain plan
    where "select_owned_plan (sm_planId input) user db = Some plan" ..
  moreover have "next_id material_id (LessonMaterials db)
      \<notin> material_id ` set (rows (LessonMaterials db))"
    using next_id_fresh[of _ "LessonMaterials db" material_id] by force
  ultimately show ?thesis
    using assms(1,3) by (simp add: saveMaterial_def insert_returning_eq Let_def)
qed

lemma first_filter_unique:
  assumes "distinct (map key rs)" and "r \<in> set rs"
  shows "first (filter (\<lambda>x. Some (key r) = Some (key x)) rs) = Some r"
  using assms by (induction rs) (auto simp: rev_image_eqI)

lemma saveObjective_cross_plan:
  assumes "requireUser ctx = Inr user"
    and "keys_ok objective_id (LessonObjectives db)"
    and "r \<in> set (rows (LessonObjectives db))"
    and "so_id input = Some (objective_id r)"
    and "objective_planId r \<noteq> so_planId input"
    and "select_owned_plan (so_planId input) user db = Some plan"
  shows "saveObjective input ctx now db =
    (Inl (ActionError NOT_FOUND ''Objective not found.''), db)"
proof -
  have "first (filter (\<lambda>x. so_id input = Some (objective_id x)) (rows (LessonObjectives db)))
      = Some r"
    using first_filter_unique[of objective_id "rows (LessonObjectives db)" r] assms(2,3,4)
    by (simp add: keys_ok_def)
  moreover have "truthy (so_id input)"
    using assms(2,3,4) by (auto simp: keys_ok_def list_all_iff truthy_def)
  ultimately show ?thesis
    using assms(1,5,6) by (simp add: saveObjective_def select_where_def Let_def)
qed

lemma saveStep_cross_plan:
  assumes "requireUser ctx = Inr user"
    and "keys_ok step_id (LessonSteps db)"
    and "r \<in> set (rows (LessonSteps db))"
    and "ss_id input = Some (step_id r)"
    and "step_planId r \<noteq> ss_planId input"
    and "select_owned_plan (ss_planId input) user db = Some plan"
  shows "saveStep input ctx now db =
    (Inl (ActionError NOT_FOUND ''Lesson step not found.''), db)"
proof -
  have "first (filter (\<lambda>x. ss_id input = Some (step_id x)) (rows (LessonSteps db))) = Some r"
    using first_filter_unique[of step_id "rows (LessonSteps db)" r] assms(2,3,4)
    by (simp add: keys_ok_def)
  moreover have "truthy (ss_id input)"
    using assms(2,3,4) by (auto simp: keys_ok_def list_all_iff truthy_def)
  ultimately show ?thesis
    using assms(1,5,6) by (simp add: saveStep_def select_where_def Let_def)
qed

lemma saveMaterial_cross_plan:
  assumes "requireUser ctx = Inr user"
    and "keys_ok material_id (LessonMaterials db)"
    and "r \<in> set (rows (LessonMaterials db))"
    and "sm_id input = Some (material_id r)"
    and "material_planId r \<noteq> sm_planId input"
    and "select_owned_plan (sm_planId input) user db = Some plan"
  shows "saveMaterial input ctx now db =
    (Inl (ActionError NOT_FOUND ''Lesson material not found.''), db)"
proof -
  have "first (filter (\<lambda>x. sm_id input = Some (material_id x)) (rows (LessonMaterials db)))
      = Some r"
    using first_filter_unique[of material_id "rows (LessonMaterials db)" r] assms(2,3,4)
    by (simp add: keys_ok_def)
  moreover have "truthy (sm_id input)"
    using assms(2,3,4) by (auto simp: keys_ok_def list_all_iff truthy_def)
  ultimately show ?thesis
    using assms(1,5,6) by (simp add: saveMaterial_def select_where_def Let_def)
qed

lemma first_Some_mem: "first rs = Some r \<Longrightarrow> r \<in> set rs"
  by (cases rs) (simp_all add: first_def)

lemma update_returning_first:
  assumes "first (fst (update_returning f P t)) = Some r"
  shows "r \<in> set (rows (snd (update_returning f P t))) \<and> (\<exists>r0. r = f r0)"
proof -
  from assms have "first (map f (filter P (rows t))) = Some r"
    by (simp add: update_returning_def)
  then have "r \<in> set (map f (filter P (rows t)))"
    by (rule first_Some_mem)
  then obtain r0 where "r0 \<in> set (rows t)" "P r0" "r = f r0"
    by auto
  then have "r \<in> (\<lambda>x. if P x then f x else x) ` set (rows t)"
    by force
  with \<open>r = f r0\<close> show ?thesis
    by (auto simp: update_returning_def)
qed

lemma saveObjective_order_default:
  assumes "so_order input = None"
    and "saveObjective input ctx now db = (Inr (Some objective), db')"
  shows "objective_order objective = 1 \<and> objective \<in> set (rows (LessonObjectives db'))"
proof -
  from assms(2) obtain user where user: "requireUser ctx = Inr user"
    by (cases "requireUser ctx") (simp_all add: saveObjective_def)
  with assms(2) obtain plan where plan: "select_owned_plan (so_planId input) user db = Some plan"
    by (cases "select_owned_plan (so_planId input) user db") (simp_all add: saveObjective_def)
  show ?thesis
  proof (cases "truthy (so_id input)")
    case False
    with assms user plan show ?thesis
      by (auto simp: saveObjective_def insert_returning_eq)
  next
    case True
    let ?f = "\<lambda>r. r\<lparr>objective_planId := so_planId input, objective_text := so_text input,
        objective_order := 1\<rparr>"
    let ?P = "\<lambda>r. so_id input = Some (objective_id r)"
    from assms user plan True
    have "first (fst (update_returning ?f ?P (LessonObjectives db))) = Some objective"
      and "db' = db\<lparr>LessonObjectives := snd (update_returning ?f ?P (LessonObjectives db))\<rparr>"
      by (auto simp: saveObjective_def split_beta split: option.splits if_splits)
    with update_returning_first[of ?f ?P "LessonObjectives db" objective] show ?thesis
      by auto
  qed
qed

lemma saveStep_order_default:
  assumes "ss_order input = None"
    and "saveStep input ctx now db = (Inr (Some step), db')"
  shows "step_order step = 1 \<and> step \<in> set (rows (LessonSteps db'))"
proof -
  from assms(2) obtain user where user: "requireUser ctx = Inr user"
    by (cases "requireUser ctx") (simp_all add: saveStep_def)
  with assms(2) obtain plan where plan: "select_owned_plan (ss_planId input) user db = Some plan"
    by (cases "select_owned_plan (ss_planId input) user db") (simp_all add: saveStep_def)
  show ?thesis
  proof (cases "truthy (ss_id input)")
    case False
    with assms user plan show ?thesis
      by (auto simp: saveStep_def insert_returning_eq)
  next
    case True
    let ?f = "\<lambda>r. r\<lparr>step_planId := ss_planId input,
        step_title := set_optional (ss_title input) (step_title r),
        step_description := ss_description input,
        step_durationMinutes := set_optional (ss_durationMinutes input) (step_durationMinutes r),
        step_order := 1\<rparr>"
    let ?P = "\<lambda>r. ss_id input = Some (step_id r)"
    from assms user plan True
    have "first (fst (update_returning ?f ?P (LessonSteps db))) = Some step"
      and "db' = db\<lparr>LessonSteps := snd (update_returning ?f ?P (LessonSteps db))\<rparr>"
      by (auto simp: saveStep_def split_beta split: option.splits if_splits)
    with update_returning_first[of ?f ?P "LessonSteps db" step] show ?thesis
      by auto
  qed
qed

lemma owned_plan_ids:
  "i \<in> set (map plan_id (select_where (\<lambda>p. plan_ownerId p = user_id user) (LessonPlans db)))
     \<longleftrightarrow> owns_plan user i db"
  by (auto simp: select_where_def owns_plan_def list_ex_iff)

lemma owned_plan_id_filter:
  assumes "owns_plan user i db"
  shows "set (map plan_id (filter (\<lambda>p. Some (plan_id p) = Some i)
      (select_where (\<lambda>p. plan_ownerId p = user_id user) (LessonPlans db)))) = {i}"
  using assms by (auto simp: select_where_def owns_plan_def list_ex_iff)

section \<open>Stores a history can reach\<close>

lemma keys_ok_insert:
  assumes "keys_ok key t" and "\<And>i. key (mk i) = i"
  shows "keys_ok key (snd (insert_returning key mk t))"
proof -
  let ?i = "next_id key t"
  have fresh: "?i \<notin> key ` set (rows t)"
    using next_id_fresh[of _ t key] by force
  have "0 < ?i"
    using next_id_gt_seq[of t key] assms(1) by (simp add: keys_ok_def)
  with assms fresh show ?thesis
    by (simp add: insert_returning_eq keys_ok_def)
qed

lemma keys_ok_update:
  assumes "keys_ok key t" and "\<And>r. key (f r) = key r"
  shows "keys_ok key (snd (update_returning f P t))"
proof -
  have "key \<circ> (\<lambda>r. if P r then f r else r) = key"
    using assms(2) by (auto simp: fun_eq_iff)
  then have "map key (map (\<lambda>r. if P r then f r else r) (rows t)) = map key (rows t)"
    by simp
  moreover have "list_all (\<lambda>r. 0 < key r) (map (\<lambda>r. if P r then f r else r) (rows t))"
    using assms by (auto simp: keys_ok_def list_all_iff)
  ultimately show ?thesis
    using assms(1) by (simp add: update_returning_def keys_ok_def del: map_map)
qed

lemma keys_ok_delete:
  assumes "keys_ok key t"
  shows "keys_ok key (snd (delete_returning P t))"
  using assms by (auto simp: delete_returning_def keys_ok_def list_all_iff distinct_map_filter)

lemma plan_id_set_plan [simp]: "plan_id (set_plan a p) = plan_id p"
  by (cases a) simp_all

lemma plan_id_fold_set_plan [simp]: "plan_id (fold set_plan as p) = plan_id p"
  by (induction as arbitrary: p) simp_all

lemma plan_ownerId_set_plan [simp]: "plan_ownerId (set_plan a p) = plan_ownerId p"
  by (cases a) simp_all

lemma plan_ownerId_fold_set_plan [simp]: "plan_ownerId (fold set_plan as p) = plan_ownerId p"
  by (induction as arbitrary: p) simp_all

lemma job_id_set_job [simp]: "job_id (set_job a j) = job_id j"
  by (cases a) simp_all

lemma job_id_fold_set_job [simp]: "job_id (fold set_job as j) = job_id j"
  by (induction as arbitrary: j) simp_all

lemma store_ok_createPlan: "store_ok db \<Longrightarrow> store_ok (snd (createPlan input ctx now db))"
  using keys_ok_insert[of plan_id "LessonPlans db"]
  by (simp add: createPlan_def store_ok_def split_beta split: sum.splits)

lemma store_ok_updatePlan: "store_ok db \<Longrightarrow> store_ok (snd (updatePlan input ctx now db))"
  using keys_ok_update[of plan_id "LessonPlans db"]
  by (simp add: updatePlan_def store_ok_def split_beta Let_def split: sum.splits option.splits)

lemma store_ok_archivePlan: "store_ok db \<Longrightarrow> store_ok (snd (archivePlan input ctx now db))"
  using keys_ok_update[of plan_id "LessonPlans db"]
  by (simp add: archivePlan_def store_ok_def split_beta Let_def split: sum.splits option.splits)

lemma store_listMyPlans: "snd (listMyPlans input ctx now db) = db"
  by (simp add: listMyPlans_def Let_def split: sum.splits)

lemma store_getPlanWithDetails: "snd (getPlanWithDetails input ctx now db) = db"
  by (simp add: getPlanWithDetails_def split: sum.splits option.splits)

lemma store_listJobs: "snd (listJobs input ctx now db) = db"
  by (simp add: listJobs_def Let_def split: sum.splits)

lemma store_ok_saveObjective: "store_ok db \<Longrightarrow> store_ok (snd (saveObjective input ctx now db))"
  using keys_ok_update[of objective_id "LessonObjectives db"]
    keys_ok_insert[of objective_id "LessonObjectives db"]
  by (simp add: saveObjective_def store_ok_def split_beta Let_def split: sum.splits option.splits)

lemma store_ok_deleteObjective: "store_ok db \<Longrightarrow> store_ok (snd (deleteObjective input ctx now db))"
  using keys_ok_delete[of objective_id "LessonObjectives db"]
  by (simp add: deleteObjective_def store_ok_def split_beta Let_def split: sum.splits option.splits)

lemma store_ok_saveStep: "store_ok db \<Longrightarrow> store_ok (snd (saveStep input ctx now db))"
  using keys_ok_update[of step_id "LessonSteps db"]
    keys_ok_insert[of step_id "LessonSteps db"]
  by (simp add: saveStep_def store_ok_def split_beta Let_def split: sum.splits option.splits)

lemma store_ok_deleteStep: "store_ok db \<Longrightarrow> store_ok (snd (deleteStep input ctx now db))"
  using keys_ok_delete[of step_id "LessonSteps db"]
  by (simp add: deleteStep_def store_ok_def split_beta Let_def split: sum.splits option.splits)

lemma store_ok_saveMaterial: "store_ok db \<Longrightarrow> store_ok (snd (saveMaterial input ctx now db))"
  using keys_ok_update[of material_id "LessonMaterials db"]
    keys_ok_insert[of material_id "LessonMaterials db"]
  by (simp add: saveMaterial_def store_ok_def split_beta Let_def split: sum.splits option.splits)

lemma store_ok_deleteMaterial: "store_ok db \<Longrightarrow> store_ok (snd (deleteMaterial input ctx now db))"
  using keys_ok_delete[of material_id "LessonMaterials db"]
  by (simp add: deleteMaterial_def store_ok_def split_beta Let_def split: sum.splits option.splits)

lemma store_ok_createJob: "store_ok db \<Longrightarrow> store_ok (snd (createJob input ctx now db))"
  using keys_ok_insert[of job_id "LessonJobs db"]
  by (simp add: createJob_def store_ok_def split_beta split: sum.splits)

lemma store_ok_updateJob: "store_ok db \<Longrightarrow> store_ok (snd (updateJob input ctx now db))"
  using keys_ok_update[of job_id "LessonJobs db"]
  by (simp add: updateJob_def store_ok_def split_beta Let_def split: sum.splits option.splits)

lemma store_ok_call: "store_ok db \<Longrightarrow> store_ok (call request ctx now db)"
  by (cases request)
    (simp_all add: store_ok_createPlan store_ok_updatePlan store_ok_archivePlan
      store_listMyPlans store_getPlanWithDetails store_listJobs store_ok_saveObjective
      store_ok_deleteObjective store_ok_saveStep store_ok_deleteStep store_ok_saveMaterial
      store_ok_deleteMaterial store_ok_createJob store_ok_updateJob)

lemma store_ok_empty: "store_ok empty_db"
  by (simp add: store_ok_def empty_db_def empty_table_def keys_ok_def)

lemma store_ok_run: "store_ok db \<Longrightarrow> store_ok (run calls db)"
  by (induction calls db rule: run.induct) (simp_all add: store_ok_call)

lemma plans_saveObjective: "LessonPlans (snd (saveObjective input ctx now db)) = LessonPlans db"
  by (simp add: saveObjective_def split_beta Let_def split: sum.splits option.splits)

lemma plans_deleteObjective: "LessonPlans (snd (deleteObjective input ctx now db)) = LessonPlans db"
  by (simp add: deleteObjective_def split_beta Let_def split: sum.splits option.splits)

lemma plans_saveStep: "LessonPlans (snd (saveStep input ctx now db)) = LessonPlans db"
  by (simp add: saveStep_def split_beta Let_def split: sum.splits option.splits)

lemma plans_deleteStep: "LessonPlans (snd (deleteStep input ctx now db)) = LessonPlans db"
  by (simp add: deleteStep_def split_beta Let_def split: sum.splits option.splits)

lemma plans_saveMaterial: "LessonPlans (snd (saveMaterial input ctx now db)) = LessonPlans db"
  by (simp add: saveMaterial_def split_beta Let_def split: sum.splits option.splits)

lemma plans_deleteMaterial: "LessonPlans (snd (deleteMaterial input ctx now db)) = LessonPlans db"
  by (simp add: deleteMaterial_def split_beta Let_def split: sum.splits option.splits)

lemma plans_createJob: "LessonPlans (snd (createJob input ctx now db)) = LessonPlans db"
  by (simp add: createJob_def split_beta Let_def split: sum.splits option.splits)

lemma plans_updateJob: "LessonPlans (snd (updateJob input ctx now db)) = LessonPlans db"
  by (simp add: updateJob_def split_beta Let_def split: sum.splits option.splits)

lemma plan_archived_cong:
  "LessonPlans db' = LessonPlans db \<Longrightarrow> plan_archived i db' = plan_archived i db"
  by (simp add: plan_archived_def)

lemma plan_archived_createPlan:
  assumes "plan_archived i db"
  shows "plan_archived i (snd (createPlan input ctx now db))"
proof (cases "requireUser ctx")
  case (Inl e)
  with assms show ?thesis by (simp add: createPlan_def)
next
  case (Inr user)
  from assms obtain p where "p \<in> set (rows (LessonPlans db))" and "plan_id p = i"
    by (auto simp: plan_archived_def list_ex_iff)
  then have "i < next_id plan_id (LessonPlans db)"
    using next_id_fresh[of p "LessonPlans db" plan_id] by simp
  with assms Inr show ?thesis
    by (simp add: createPlan_def insert_returning_eq plan_archived_def)
qed

lemma defined_entries_eq: "defined_entries es acc = acc @ List.map_filter id es"
  by (induction es acc rule: defined_entries.induct) (simp_all add: List.map_filter_simps)

lemma updatePlan_status_result:
  "plan_status (fold set_plan
      (defined_entries (updatePlan_entries input) [] @ [SetUpdatedAt now]) p) =
   (case up_status input of None \<Rightarrow> plan_status p | Some s \<Rightarrow> s)"
  by (auto simp: updatePlan_entries_def defined_entries_eq List.map_filter_simps
      split: option.splits)

lemma updatePlan_entries_status:
  "up_status input = Some s \<Longrightarrow> defined_entries (updatePlan_entries input) [] \<noteq> []"
  by (auto simp: updatePlan_entries_def defined_entries_eq List.map_filter_simps
      split: option.splits)

lemma plan_archived_update:
  assumes "plan_archived i db"
    and "\<And>p. p \<in> set (rows (LessonPlans db)) \<Longrightarrow> P p \<Longrightarrow> plan_id p = i \<Longrightarrow>
           plan_status p = Archived \<Longrightarrow> plan_status (f p) = Archived"
    and "\<And>p. plan_id (f p) = plan_id p"
  shows "plan_archived i (db\<lparr>LessonPlans := snd (update_returning f P (LessonPlans db))\<rparr>)"
proof -
  define g where "g = (\<lambda>r. if P r then f r else r)"
  have key: "plan_id (g r) = plan_id r" for r
    by (simp add: g_def assms(3))
  have status: "plan_status (g r) = Archived"
    if "r \<in> set (rows (LessonPlans db))" "plan_id r = i" "plan_status r = Archived" for r
    using that assms(2) by (simp add: g_def)
  from assms(1) obtain p where p: "p \<in> set (rows (LessonPlans db))" "plan_id p = i"
    by (auto simp: plan_archived_def list_ex_iff)
  have "\<exists>q\<in>g ` set (rows (LessonPlans db)). plan_id q = i"
    using p key by blast
  moreover have "\<forall>q\<in>g ` set (rows (LessonPlans db)). plan_id q \<noteq> i \<or> plan_status q = Archived"
    using assms(1) key status by (auto simp: plan_archived_def list_all_iff)
  ultimately show ?thesis
    by (simp add: plan_archived_def update_returning_def list_all_iff list_ex_iff
        g_def[symmetric])
qed

lemma plan_archived_updatePlan:
  assumes "plan_archived i db" and "\<not> sets_status_back i db (UpdatePlan input) ctx"
  shows "plan_archived i (snd (updatePlan input ctx now db))"
proof (cases "requireUser ctx")
  case (Inl e)
  with assms(1) show ?thesis by (simp add: updatePlan_def)
next
  case (Inr user)
  have "plan_archived i (db\<lparr>LessonPlans := snd (update_returning
      (fold set_plan (defined_entries (updatePlan_entries input) [] @ [SetUpdatedAt now]))
      (\<lambda>p. plan_id p = up_id input \<and> plan_ownerId p = user_id user) (LessonPlans db))\<rparr>)"
  proof (rule plan_archived_update[OF assms(1)])
    fix p :: LessonPlan
    assume p: "p \<in> set (rows (LessonPlans db))"
      "plan_id p = up_id input \<and> plan_ownerId p = user_id user" "plan_id p = i"
      "plan_status p = Archived"
    then have "owns_plan user i db"
      by (auto simp: owns_plan_def list_ex_iff)
    with p assms(2) Inr have "up_status input \<noteq> Some Draft \<and> up_status input \<noteq> Some Published"
      by auto
    then have "up_status input = None \<or> up_status input = Some Archived"
      by (cases "up_status input"; cases "the (up_status input)") auto
    with p(4) show "plan_status (fold set_plan
        (defined_entries (updatePlan_entries input) [] @ [SetUpdatedAt now]) p) = Archived"
      by (auto simp only: updatePlan_status_result option.case)
  qed simp
  with assms(1) Inr show ?thesis
    by (simp add: updatePlan_def split_beta Let_def del: fold.simps fold_append
        split: option.splits)
qed

lemma plan_archived_archivePlan:
  assumes "plan_archived i db"
  shows "plan_archived i (snd (archivePlan input ctx now db))"
proof (cases "requireUser ctx")
  case (Inl e)
  with assms show ?thesis by (simp add: archivePlan_def)
next
  case (Inr user)
  have "plan_archived i (db\<lparr>LessonPlans := snd (update_returning
      (fold set_plan [SetStatus Archived, SetUpdatedAt now])
      (\<lambda>p. plan_id p = ap_id input \<and> plan_ownerId p = user_id user) (LessonPlans db))\<rparr>)"
    by (rule plan_archived_update[OF assms]) simp_all
  with Inr show ?thesis
    by (simp add: archivePlan_def split_beta Let_def del: fold.simps split: option.splits)
qed

lemma plan_archived_call:
  assumes "plan_archived i db" and "\<not> sets_status_back i db request ctx"
  shows "plan_archived i (call request ctx now db)"
proof (cases request)
  case (CreatePlan input)
  with assms show ?thesis by (simp add: plan_archived_createPlan)
next
  case (UpdatePlan input)
  with assms show ?thesis by (simp add: plan_archived_updatePlan del: sets_status_back.simps)
next
  case (ArchivePlan input)
  with assms show ?thesis by (simp add: plan_archived_archivePlan)
qed (use assms(1) in \<open>simp_all add: store_listMyPlans store_getPlanWithDetails store_listJobs
      plan_archived_cong[OF plans_saveObjective] plan_archived_cong[OF plans_deleteObjective]
      plan_archived_cong[OF plans_saveStep] plan_archived_cong[OF plans_deleteStep]
      plan_archived_cong[OF plans_saveMaterial] plan_archived_cong[OF plans_deleteMaterial]
      plan_archived_cong[OF plans_createJob] plan_archived_cong[OF plans_updateJob]\<close>)

text \<open>Who owns a plan that is in the store does not change.\<close>

lemma owns_plan_cong:
  "LessonPlans db' = LessonPlans db \<Longrightarrow> owns_plan user i db' = owns_plan user i db"
  by (simp add: owns_plan_def)

lemma owns_plan_update:
  assumes "\<And>p. plan_id (f p) = plan_id p" and "\<And>p. plan_ownerId (f p) = plan_ownerId p"
  shows "owns_plan user i (db\<lparr>LessonPlans := snd (update_returning f P (LessonPlans db))\<rparr>)
     = owns_plan user i db"
proof -
  define g where "g = (\<lambda>r. if P r then f r else r)"
  have "plan_id (g r) = plan_id r" and "plan_ownerId (g r) = plan_ownerId r" for r
    by (simp_all add: g_def assms)
  then have "(\<exists>q\<in>g ` set (rows (LessonPlans db)). plan_id q = i \<and> plan_ownerId q = user_id user)
      = (\<exists>q\<in>set (rows (LessonPlans db)). plan_id q = i \<and> plan_ownerId q = user_id user)"
    by auto
  then show ?thesis
    by (simp add: owns_plan_def update_returning_def list_ex_iff g_def[symmetric])
qed

lemma owns_plan_createPlan:
  assumes "list_ex (\<lambda>p. plan_id p = i) (rows (LessonPlans db))"
  shows "owns_plan user i (snd (createPlan input ctx now db)) = owns_plan user i db"
proof (cases "requireUser ctx")
  case (Inl e)
  then show ?thesis by (simp add: createPlan_def)
next
  case (Inr caller)
  from assms obtain p where "p \<in> set (rows (LessonPlans db))" and "plan_id p = i"
    by (auto simp: list_ex_iff)
  then have "i < next_id plan_id (LessonPlans db)"
    using next_id_fresh[of p "LessonPlans db" plan_id] by simp
  with Inr show ?thesis
    by (simp add: createPlan_def insert_returning_eq owns_plan_def)
qed

lemma owns_plan_updatePlan:
  "owns_plan user i (snd (updatePlan input ctx now db)) = owns_plan user i db"
proof (cases "requireUser ctx")
  case (Inl e)
  then show ?thesis by (simp add: updatePlan_def)
next
  case (Inr caller)
  have "owns_plan user i (db\<lparr>LessonPlans := snd (update_returning
      (fold set_plan (defined_entries (updatePlan_entries input) [] @ [SetUpdatedAt now]))
      (\<lambda>p. plan_id p = up_id input \<and> plan_ownerId p = user_id caller) (LessonPlans db))\<rparr>)
    = owns_plan user i db"
    by (rule owns_plan_update) simp_all
  with Inr show ?thesis
    by (simp add: updatePlan_def split_beta Let_def del: fold.simps fold_append
        split: option.splits)
qed

lemma owns_plan_archivePlan:
  "owns_plan user i (snd (archivePlan input ctx now db)) = owns_plan user i db"
proof (cases "requireUser ctx")
  case (Inl e)
  then show ?thesis by (simp add: archivePlan_def)
next
  case (Inr caller)
  have "owns_plan user i (db\<lparr>LessonPlans := snd (update_returning
      (fold set_plan [SetStatus Archived, SetUpdatedAt now])
      (\<lambda>p. plan_id p = ap_id input \<and> plan_ownerId p = user_id caller) (LessonPlans db))\<rparr>)
    = owns_plan user i db"
    by (rule owns_plan_update) simp_all
  with Inr show ?thesis
    by (simp add: archivePlan_def split_beta Let_def del: fold.simps split: option.splits)
qed

lemma owns_plan_call:
  assumes "list_ex (\<lambda>p. plan_id p = i) (rows (LessonPlans db))"
  shows "owns_plan user i (call request ctx now db) = owns_plan user i db"
proof (cases request)
  case (CreatePlan input)
  with assms show ?thesis by (simp add: owns_plan_createPlan)
next
  case (UpdatePlan input)
  then show ?thesis by (simp add: owns_plan_updatePlan)
next
  case (ArchivePlan input)
  then show ?thesis by (simp add: owns_plan_archivePlan)
qed (simp_all add: store_listMyPlans store_getPlanWithDetails store_listJobs
      owns_plan_cong[OF plans_saveObjective] owns_plan_cong[OF plans_deleteObjective]
      owns_plan_cong[OF plans_saveStep] owns_plan_cong[OF plans_deleteStep]
      owns_plan_cong[OF plans_saveMaterial] owns_plan_cong[OF plans_deleteMaterial]
      owns_plan_cong[OF plans_createJob] owns_plan_cong[OF plans_updateJob])

lemma sets_status_back_cong:
  assumes "\<And>user. owns_plan user i db' = owns_plan user i db"
  shows "sets_status_back i db' request ctx = sets_status_back i db request ctx"
  by (cases request) (simp_all add: assms split: sum.splits)

lemma plan_archived_run:
  assumes "plan_archived i db"
    and "\<And>user. owns_plan user i db = owns_plan user i db0"
    and "list_all (\<lambda>(request, ctx, now). \<not> sets_status_back i db0 request ctx) calls"
  shows "plan_archived i (run calls db)"
  using assms
proof (induction calls arbitrary: db)
  case Nil
  then show ?case by simp
next
  case (Cons c calls)
  obtain request ctx now where c: "c = (request, ctx, now)"
    by (cases c) auto
  from Cons.prems(2) have same: "sets_status_back i db request ctx = sets_status_back i db0 request ctx"
    by (rule sets_status_back_cong)
  with Cons.prems c have archived: "plan_archived i (call request ctx now db)"
    by (simp add: plan_archived_call)
  from Cons.prems(1) have "list_ex (\<lambda>p. plan_id p = i) (rows (LessonPlans db))"
    by (simp add: plan_archived_def)
  then have "owns_plan user i (call request ctx now db) = owns_plan user i db0" for user
    using Cons.prems(2) by (simp add: owns_plan_call)
  with archived Cons.prems(3) c have "plan_archived i (run calls (call request ctx now db))"
    by (intro Cons.IH) simp_all
  with c show ?case by simp
qed

lemma updatePlan_sets_status:
  assumes "requireUser ctx = Inr user" and "owns_plan user (up_id input) db"
    and "up_status input = Some s"
  shows "list_ex (\<lambda>p. plan_id p = up_id input \<and> plan_ownerId p = user_id user \<and> plan_status p = s)
           (rows (LessonPlans (snd (updatePlan input ctx now db))))"
proof -
  let ?f = "fold set_plan (defined_entries (updatePlan_entries input) [] @ [SetUpdatedAt now])"
  let ?P = "\<lambda>p. plan_id p = up_id input \<and> plan_ownerId p = user_id user"
  from assms(2) obtain r where r: "r \<in> set (rows (LessonPlans db))" "?P r"
    by (auto simp: owns_plan_def list_ex_iff)
  from owns_plan_select[OF assms(2)] obtain existing
    where existing: "select_owned_plan (up_id input) user db = Some existing" ..
  have store: "snd (updatePlan input ctx now db) =
      db\<lparr>LessonPlans := snd (update_returning ?f ?P (LessonPlans db))\<rparr>"
    using assms(1) existing updatePlan_entries_status[OF assms(3)]
    by (simp add: updatePlan_def split_beta Let_def del: fold.simps fold_append)
  define q where "q = ?f r"
  have "plan_status q = s"
    using assms(3) unfolding q_def by (simp only: updatePlan_status_result option.case)
  moreover have "plan_id q = up_id input" and "plan_ownerId q = user_id user"
    using r(2) by (simp_all add: q_def)
  moreover have "q \<in> set (rows (snd (update_returning ?f ?P (LessonPlans db))))"
    using r unfolding q_def by (force simp: update_returning_def)
  ultimately have "\<exists>p\<in>set (rows (snd (update_returning ?f ?P (LessonPlans db)))).
      plan_id p = up_id input \<and> plan_ownerId p = user_id user \<and> plan_status p = s"
    by blast
  then show ?thesis
    unfolding store by (simp add: list_ex_iff del: fold.simps fold_append)
qed

lemma updatePlan_reverts:
  assumes "requireUser ctx = Inr user" and "owns_plan user (up_id input) db"
    and "up_status input = Some s" and "s \<noteq> Archived"
  shows "\<not> plan_archived (up_id input) (snd (updatePlan input ctx now db))"
  using updatePlan_sets_status[OF assms(1,2,3), of now] assms(4)
  by (auto simp: plan_archived_def list_ex_iff list_all_iff)

section \<open>The claims\<close>

text \<open>
  The example store is the store the example history leaves, starting from the empty
  store.
\<close>

lemma demo_db_reachable: "run demo_history empty_db = demo_db"
  by code_simp

subsection \<open>C1: plan-less jobs and the plan filter of \<^verbatim>\<open>listJobs\<close>\<close>

text \<open>
  Claim C1 as stated: when \<^verbatim>\<open>listJobs\<close> is given a plan filter, jobs with no plan are
  left out of the result.  The handler keeps them: its test for the plan of a job is
  \<^verbatim>\<open>job.planId ? allowedPlanIds.has(job.planId) : true\<close>.  After the example history
  the first user owns plan 1 and asks for the jobs of plan 1; the result holds her job
  with no plan as well as her job for plan 1.
\<close>

theorem C1_counterexample:
  "owns_plan \<lparr>user_id = ''alice''\<rparr> 1 (run demo_history empty_db) \<and>
   listJobs (Some \<lparr>lj_planId = Some 1, lj_status = None\<rparr>) alice 30 (run demo_history empty_db) =
     (Inr [\<lparr>job_id = 1, job_planId = None, job_userId = Some ''alice'', job_jobType = Full,
            job_input = None, job_output = None, job_status = Pending, job_createdAt = 10\<rparr>,
           \<lparr>job_id = 2, job_planId = Some 1, job_userId = Some ''alice'', job_jobType = Outline,
            job_input = Some (JString ''leaf''), job_output = None, job_status = Completed,
            job_createdAt = 11\<rparr>],
      run demo_history empty_db)"
  by code_simp

text \<open>
  Claim C1, amended: for a signed-in caller, \<^verbatim>\<open>listJobs\<close> with a plan filter \<open>i\<close>
  (not 0, a plan the caller owns) returns exactly the caller's jobs whose plan is absent,
  0 or \<open>i\<close>, and with no plan filter exactly the caller's jobs whose plan is absent, 0
  or one of the caller's plans; in both cases narrowed to the status asked for, if any.
  Jobs with no plan are in the result with and without a plan filter.  The store is not
  changed.
\<close>

theorem C1_listJobs_plan_filter:
  assumes "requireUser ctx = Inr user"
  shows
   "(listJobs_planId input = Some i \<and> i \<noteq> 0 \<and> owns_plan user i db \<longrightarrow>
       listJobs input ctx now db =
         (Inr (filter (\<lambda>j. job_userId j = Some (user_id user) \<and>
                  (case job_planId j of None \<Rightarrow> True | Some k \<Rightarrow> k = 0 \<or> k = i) \<and>
                  (case listJobs_status input of None \<Rightarrow> True | Some s \<Rightarrow> job_status j = s))
                (rows (LessonJobs db))), db)) \<and>
    (\<not> truthy (listJobs_planId input) \<longrightarrow>
       listJobs input ctx now db =
         (Inr (filter (\<lambda>j. job_userId j = Some (user_id user) \<and>
                  (case job_planId j of None \<Rightarrow> True | Some k \<Rightarrow> k = 0 \<or> owns_plan user k db) \<and>
                  (case listJobs_status input of None \<Rightarrow> True | Some s \<Rightarrow> job_status j = s))
                (rows (LessonJobs db))), db))"
proof (intro conjI impI; (elim conjE)?)
  assume filter: "listJobs_planId input = Some i" "i \<noteq> 0" and own: "owns_plan user i db"
  let ?plans = "filter (\<lambda>p. Some (plan_id p) = Some i)
      (select_where (\<lambda>p. plan_ownerId p = user_id user) (LessonPlans db))"
  have allowed: "set (map plan_id ?plans) = {i}"
    by (rule owned_plan_id_filter[OF own])
  have "?plans \<noteq> []"
  proof
    assume "?plans = []"
    then have "set (map plan_id ?plans) = {}"
      by simp
    with allowed show False
      by simp
  qed
  with assms filter allowed show "listJobs input ctx now db =
         (Inr (filter (\<lambda>j. job_userId j = Some (user_id user) \<and>
                  (case job_planId j of None \<Rightarrow> True | Some k \<Rightarrow> k = 0 \<or> k = i) \<and>
                  (case listJobs_status input of None \<Rightarrow> True | Some s \<Rightarrow> job_status j = s))
                (rows (LessonJobs db))), db)"
    by (auto simp: listJobs_def Let_def truthy_def select_where_def[of _ "LessonJobs db"]
        simp del: set_map
        intro!: filter_cong split: option.splits)
next
  assume "\<not> truthy (listJobs_planId input)"
  with assms show "listJobs input ctx now db =
         (Inr (filter (\<lambda>j. job_userId j = Some (user_id user) \<and>
                  (case job_planId j of None \<Rightarrow> True | Some k \<Rightarrow> k = 0 \<or> owns_plan user k db) \<and>
                  (case listJobs_status input of None \<Rightarrow> True | Some s \<Rightarrow> job_status j = s))
                (rows (LessonJobs db))), db)"
    by (auto simp: listJobs_def Let_def truthy_def owned_plan_ids
        select_where_def[of _ "LessonJobs db"]
        simp del: set_map
        intro!: filter_cong split: option.splits)
qed

theorem C1_listJobs_plan_filter_witness:
  "requireUser alice = Inr \<lparr>user_id = ''alice''\<rparr> \<and>
   owns_plan \<lparr>user_id = ''alice''\<rparr> 1 demo_db \<and>
   listJobs (Some \<lparr>lj_planId = Some 1, lj_status = None\<rparr>) alice 30 demo_db =
     (Inr [\<lparr>job_id = 1, job_planId = None, job_userId = Some ''alice'', job_jobType = Full,
            job_input = None, job_output = None, job_status = Pending, job_createdAt = 10\<rparr>,
           \<lparr>job_id = 2, job_planId = Some 1, job_userId = Some ''alice'', job_jobType = Outline,
            job_input = Some (JString ''leaf''), job_output = None, job_status = Completed,
            job_createdAt = 11\<rparr>], demo_db) \<and>
   listJobs (Some \<lparr>lj_planId = None, lj_status = Some Pending\<rparr>) alice 30 demo_db =
     (Inr [\<lparr>job_id = 1, job_planId = None, job_userId = Some ''alice'', job_jobType = Full,
            job_input = None, job_output = None, job_status = Pending, job_createdAt = 10\<rparr>],
      demo_db)"
proof -
  let ?by_plan = "Some \<lparr>lj_planId = Some 1, lj_status = None\<rparr>"
  let ?by_status = "Some \<lparr>lj_planId = None, lj_status = Some Pending\<rparr>"
  have user: "requireUser alice = Inr \<lparr>user_id = ''alice''\<rparr>"
    by code_simp
  have own: "owns_plan \<lparr>user_id = ''alice''\<rparr> 1 demo_db"
    by code_simp
  have plan_filter: "listJobs_planId ?by_plan = Some 1 \<and> (1::int) \<noteq> 0 \<and>
      owns_plan \<lparr>user_id = ''alice''\<rparr> 1 demo_db"
    by code_simp
  have no_plan_filter: "\<not> truthy (listJobs_planId ?by_status)"
    by code_simp
  have jobs_by_plan: "filter (\<lambda>j. job_userId j = Some (user_id \<lparr>user_id = ''alice''\<rparr>) \<and>
        (case job_planId j of None \<Rightarrow> True | Some k \<Rightarrow> k = 0 \<or> k = 1) \<and>
        (case listJobs_status ?by_plan of None \<Rightarrow> True | Some s \<Rightarrow> job_status j = s))
      (rows (LessonJobs demo_db)) =
     [\<lparr>job_id = 1, job_planId = None, job_userId = Some ''alice'', job_jobType = Full,
        job_input = None, job_output = None, job_status = Pending, job_createdAt = 10\<rparr>,
      \<lparr>job_id = 2, job_planId = Some 1, job_userId = Some ''alice'', job_jobType = Outline,
        job_input = Some (JString ''leaf''), job_output = None, job_status = Completed,
        job_createdAt = 11\<rparr>]"
    by code_simp
  have jobs_by_status: "filter (\<lambda>j. job_userId j = Some (user_id \<lparr>user_id = ''alice''\<rparr>) \<and>
        (case job_planId j of None \<Rightarrow> True
         | Some k \<Rightarrow> k = 0 \<or> owns_plan \<lparr>user_id = ''alice''\<rparr> k demo_db) \<and>
        (case listJobs_status ?by_status of None \<Rightarrow> True | Some s \<Rightarrow> job_status j = s))
      (rows (LessonJobs demo_db)) =
     [\<lparr>job_id = 1, job_planId = None, job_userId = Some ''alice'', job_jobType = Full,
        job_input = None, job_output = None, job_status = Pending, job_createdAt = 10\<rparr>]"
    by code_simp
  have r1: "listJobs ?by_plan alice 30 demo_db =
     (Inr [\<lparr>job_id = 1, job_planId = None, job_userId = Some ''alice'', job_jobType = Full,
            job_input = None, job_output = None, job_status = Pending, job_createdAt = 10\<rparr>,
           \<lparr>job_id = 2, job_planId = Some 1, job_userId = Some ''alice'', job_jobType = Outline,
            job_input = Some (JString ''leaf''), job_output = None, job_status = Completed,
            job_createdAt = 11\<rparr>], demo_db)"
    using C1_listJobs_plan_filter[OF user, where input = ?by_plan and i = 1 and db = demo_db
        and now = 30, THEN conjunct1, THEN mp, OF plan_filter]
    by (simp only: jobs_by_plan)
  have r2: "listJobs ?by_status alice 30 demo_db =
     (Inr [\<lparr>job_id = 1, job_planId = None, job_userId = Some ''alice'', job_jobType = Full,
            job_input = None, job_output = None, job_status = Pending, job_createdAt = 10\<rparr>],
      demo_db)"
    using C1_listJobs_plan_filter[OF user, where input = ?by_status and i = 1 and db = demo_db
        and now = 30, THEN conjunct2, THEN mp, OF no_plan_filter]
    by (simp only: jobs_by_status)
  from user own r1 r2 show ?thesis
    by (intro conjI)
qed

subsection \<open>C2: mutations of child records by a user who does not own the plan\<close>

text \<open>
  Claim C2: for a signed-in caller who owns no plan with the key given as \<^verbatim>\<open>planId\<close>,
  each of \<^verbatim>\<open>saveObjective\<close>, \<^verbatim>\<open>deleteObjective\<close>, \<^verbatim>\<open>saveStep\<close>, \<^verbatim>\<open>deleteStep\<close>,
  \<^verbatim>\<open>saveMaterial\<close> and \<^verbatim>\<open>deleteMaterial\<close> fails with \<^verbatim>\<open>NOT_FOUND\<close> and leaves the
  store as it was, whatever the rest of the input and whatever child rows the store
  holds.
\<close>

theorem C2_mutation_by_non_owner:
  assumes "requireUser ctx = Inr user"
  shows "(\<not> owns_plan user (so_planId save_objective) db \<longrightarrow>
            saveObjective save_objective ctx now db =
              (Inl (ActionError NOT_FOUND ''Lesson plan not found.''), db)) \<and>
         (\<not> owns_plan user (do_planId delete_objective) db \<longrightarrow>
            deleteObjective delete_objective ctx now db =
              (Inl (ActionError NOT_FOUND ''Lesson plan not found.''), db)) \<and>
         (\<not> owns_plan user (ss_planId save_step) db \<longrightarrow>
            saveStep save_step ctx now db =
              (Inl (ActionError NOT_FOUND ''Lesson plan not found.''), db)) \<and>
         (\<not> owns_plan user (ds_planId delete_step) db \<longrightarrow>
            deleteStep delete_step ctx now db =
              (Inl (ActionError NOT_FOUND ''Lesson plan not found.''), db)) \<and>
         (\<not> owns_plan user (sm_planId save_material) db \<longrightarrow>
            saveMaterial save_material ctx now db =
              (Inl (ActionError NOT_FOUND ''Lesson plan not found.''), db)) \<and>
         (\<not> owns_plan user (dm_planId delete_material) db \<longrightarrow>
            deleteMaterial delete_material ctx now db =
              (Inl (ActionError NOT_FOUND ''Lesson plan not found.''), db))"
  using assms
  by (simp add: saveObjective_not_owner deleteObjective_not_owner saveStep_not_owner
      deleteStep_not_owner saveMaterial_not_owner deleteMaterial_not_owner
      plan_not_found_def[symmetric])

theorem C2_mutation_by_non_owner_witness:
  "requireUser alice = Inr \<lparr>user_id = ''alice''\<rparr> \<and>
   \<not> owns_plan \<lparr>user_id = ''alice''\<rparr> 2 demo_db \<and>
   saveObjective \<lparr>so_id = Some 2, so_planId = 2, so_text = ''Mine now'', so_order = None\<rparr>
     alice 30 demo_db = (Inl (ActionError NOT_FOUND ''Lesson plan not found.''), demo_db) \<and>
   deleteObjective \<lparr>do_id = 2, do_planId = 2\<rparr> alice 30 demo_db =
     (Inl (ActionError NOT_FOUND ''Lesson plan not found.''), demo_db) \<and>
   saveStep \<lparr>ss_id = None, ss_planId = 2, ss_title = None, ss_description = ''Mine now'',
       ss_durationMinutes = None, ss_order = None\<rparr> alice 30 demo_db =
     (Inl (ActionError NOT_FOUND ''Lesson plan not found.''), demo_db) \<and>
   deleteStep \<lparr>ds_id = 7, ds_planId = 2\<rparr> alice 30 demo_db =
     (Inl (ActionError NOT_FOUND ''Lesson plan not found.''), demo_db) \<and>
   saveMaterial \<lparr>sm_id = Some 2, sm_planId = 2, sm_name = ''Mine now'', sm_type = None,
       sm_url = None\<rparr> alice 30 demo_db =
     (Inl (ActionError NOT_FOUND ''Lesson plan not found.''), demo_db) \<and>
   deleteMaterial \<lparr>dm_id = 2, dm_planId = 2\<rparr> alice 30 demo_db =
     (Inl (ActionError NOT_FOUND ''Lesson plan not found.''), demo_db)"
proof -
  let ?so = "\<lparr>so_id = Some 2, so_planId = 2, so_text = ''Mine now'', so_order = None\<rparr>"
  let ?do = "\<lparr>do_id = 2, do_planId = 2\<rparr>"
  let ?ss = "\<lparr>ss_id = None, ss_planId = 2, ss_title = None, ss_description = ''Mine now'',
       ss_durationMinutes = None, ss_order = None\<rparr>"
  let ?ds = "\<lparr>ds_id = 7, ds_planId = 2\<rparr>"
  let ?sm = "\<lparr>sm_id = Some 2, sm_planId = 2, sm_name = ''Mine now'', sm_type = None,
       sm_url = None\<rparr>"
  let ?dm = "\<lparr>dm_id = 2, dm_planId = 2\<rparr>"
  have user: "requireUser alice = Inr \<lparr>user_id = ''alice''\<rparr>"
    by code_simp
  have other: "\<not> owns_plan \<lparr>user_id = ''alice''\<rparr> 2 demo_db"
    by code_simp
  have plans: "so_planId ?so = 2" "do_planId ?do = 2" "ss_planId ?ss = 2" "ds_planId ?ds = 2"
    "sm_planId ?sm = 2" "dm_planId ?dm = 2"
    by simp_all
  note claim = C2_mutation_by_non_owner[OF user, where db = demo_db and now = 30
      and save_objective = ?so and delete_objective = ?do and save_step = ?ss
      and delete_step = ?ds and save_material = ?sm and delete_material = ?dm,
      unfolded plans]
  from user other claim show ?thesis
    by blast
qed

subsection \<open>C3: the status of an archived plan\<close>

text \<open>
  Claim C3 as stated: no operation moves an archived plan back to draft or published.
  \<^verbatim>\<open>updatePlan\<close> does: it writes whatever status its input supplies.  After the example
  history plan 2 is archived; its owner then calls \<^verbatim>\<open>updatePlan\<close> with status draft, an
  input the schema accepts, and the plan is a draft again.
\<close>

theorem C3_counterexample:
  "map (\<lambda>p. (plan_id p, plan_ownerId p, plan_status p)) (rows (LessonPlans (run demo_history empty_db))) =
     [(1, ''alice'', Draft), (2, ''bob'', Archived)] \<and>
   updatePlan_schema ((no_plan_fields 2)\<lparr>up_status := Some Draft\<rparr>) \<and>
   map (\<lambda>p. (plan_id p, plan_ownerId p, plan_status p)) (rows (LessonPlans (run
       (demo_history @ [(UpdatePlan ((no_plan_fields 2)\<lparr>up_status := Some Draft\<rparr>), bob, 20)])
       empty_db))) =
     [(1, ''alice'', Draft), (2, ''bob'', Draft)]"
  by code_simp

text \<open>
  Claim C3, amended: a plan that is archived stays archived through every history of
  calls except one that contains an \<^verbatim>\<open>updatePlan\<close> call for that plan, by a signed-in caller
  who owns it, supplying the status draft or published.  (Calls by callers who are not
  signed in or do not own the plan, \<^verbatim>\<open>archivePlan\<close>, \<^verbatim>\<open>updatePlan\<close> with no status or with
  status archived, and every other action leave it archived.)  Such a call does move the
  plan: after \<^verbatim>\<open>updatePlan\<close> by a signed-in owner with a status, the store holds a row of
  that plan and owner with the status supplied, so with draft or published the plan is no
  longer archived.
\<close>

theorem C3_archived_until_owner_sets_status:
  "(plan_archived i db \<and>
    list_all (\<lambda>(request, ctx, now). \<not> sets_status_back i db request ctx) calls \<longrightarrow>
      plan_archived i (run calls db)) \<and>
   (requireUser caller = Inr user \<and> owns_plan user (up_id input) db \<and>
    up_status input = Some s \<longrightarrow>
      list_ex (\<lambda>p. plan_id p = up_id input \<and> plan_ownerId p = user_id user \<and> plan_status p = s)
        (rows (LessonPlans (snd (updatePlan input caller now db)))) \<and>
      (s \<noteq> Archived \<longrightarrow> \<not> plan_archived (up_id input) (snd (updatePlan input caller now db))))"
proof (intro conjI impI; (elim conjE)?)
  assume "plan_archived i db"
    and "list_all (\<lambda>(request, ctx, now). \<not> sets_status_back i db request ctx) calls"
  then show "plan_archived i (run calls db)"
    by (intro plan_archived_run[where ?db0.0 = db]) simp_all
next
  assume "requireUser caller = Inr user" "owns_plan user (up_id input) db"
    "up_status input = Some s"
  then show "list_ex (\<lambda>p. plan_id p = up_id input \<and> plan_ownerId p = user_id user \<and>
      plan_status p = s) (rows (LessonPlans (snd (updatePlan input caller now db))))"
    by (rule updatePlan_sets_status)
next
  assume "requireUser caller = Inr user" "owns_plan user (up_id input) db"
    "up_status input = Some s" "s \<noteq> Archived"
  then show "\<not> plan_archived (up_id input) (snd (updatePlan input caller now db))"
    by (rule updatePlan_reverts)
qed

theorem C3_archived_until_owner_sets_status_witness:
  "plan_archived 2 demo_db \<and>
   list_all (\<lambda>(request, ctx, now). \<not> sets_status_back 2 demo_db request ctx)
     [(UpdatePlan ((no_plan_fields 2)\<lparr>up_status := Some Draft\<rparr>), alice, 20),
      (UpdatePlan ((no_plan_fields 2)\<lparr>up_status := Some Published\<rparr>),
         \<lparr>context_locals = None\<rparr>, 21),
      (UpdatePlan ((no_plan_fields 2)\<lparr>up_title := Some ''Fractions II''\<rparr>), bob, 22),
      (UpdatePlan ((no_plan_fields 1)\<lparr>up_status := Some Published\<rparr>), alice, 23),
      (ArchivePlan \<lparr>ap_id = 2\<rparr>, bob, 24),
      (CreatePlan (new_plan ''Decimals''), bob, 25),
      (UpdatePlan ((no_plan_fields 2)\<lparr>up_status := Some Archived\<rparr>), bob, 26),
      (DeleteObjective \<lparr>do_id = 2, do_planId = 2\<rparr>, bob, 27)] \<and>
   plan_archived 2 (run
     [(UpdatePlan ((no_plan_fields 2)\<lparr>up_status := Some Draft\<rparr>), alice, 20),
      (UpdatePlan ((no_plan_fields 2)\<lparr>up_status := Some Published\<rparr>),
         \<lparr>context_locals = None\<rparr>, 21),
      (UpdatePlan ((no_plan_fields 2)\<lparr>up_title := Some ''Fractions II''\<rparr>), bob, 22),
      (UpdatePlan ((no_plan_fields 1)\<lparr>up_status := Some Published\<rparr>), alice, 23),
      (ArchivePlan \<lparr>ap_id = 2\<rparr>, bob, 24),
      (CreatePlan (new_plan ''Decimals''), bob, 25),
      (UpdatePlan ((no_plan_fields 2)\<lparr>up_status := Some Archived\<rparr>), bob, 26),
      (DeleteObjective \<lparr>do_id = 2, do_planId = 2\<rparr>, bob, 27)] demo_db) \<and>
   requireUser bob = Inr \<lparr>user_id = ''bob''\<rparr> \<and>
   owns_plan \<lparr>user_id = ''bob''\<rparr> 2 demo_db \<and>
   \<not> plan_archived 2
     (snd (updatePlan ((no_plan_fields 2)\<lparr>up_status := Some Published\<rparr>) bob 30 demo_db))"
proof -
  let ?calls = "[(UpdatePlan ((no_plan_fields 2)\<lparr>up_status := Some Draft\<rparr>), alice, 20),
      (UpdatePlan ((no_plan_fields 2)\<lparr>up_status := Some Published\<rparr>),
         \<lparr>context_locals = None\<rparr>, 21),
      (UpdatePlan ((no_plan_fields 2)\<lparr>up_title := Some ''Fractions II''\<rparr>), bob, 22),
      (UpdatePlan ((no_plan_fields 1)\<lparr>up_status := Some Published\<rparr>), alice, 23),
      (ArchivePlan \<lparr>ap_id = 2\<rparr>, bob, 24),
      (CreatePlan (new_plan ''Decimals''), bob, 25),
      (UpdatePlan ((no_plan_fields 2)\<lparr>up_status := Some Archived\<rparr>), bob, 26),
      (DeleteObjective \<lparr>do_id = 2, do_planId = 2\<rparr>, bob, 27)]"
  let ?publish = "(no_plan_fields 2)\<lparr>up_status := Some Published\<rparr>"
  have archived: "plan_archived 2 demo_db"
    by code_simp
  have harmless: "list_all (\<lambda>(request, ctx, now). \<not> sets_status_back 2 demo_db request ctx) ?calls"
    by code_simp
  have user: "requireUser bob = Inr \<lparr>user_id = ''bob''\<rparr>"
    by code_simp
  have own: "owns_plan \<lparr>user_id = ''bob''\<rparr> 2 demo_db"
    by code_simp
  have request: "requireUser bob = Inr \<lparr>user_id = ''bob''\<rparr> \<and>
      owns_plan \<lparr>user_id = ''bob''\<rparr> (up_id ?publish) demo_db \<and>
      up_status ?publish = Some Published"
    by code_simp
  have key: "up_id ?publish = 2"
    by code_simp
  have other: "Published \<noteq> Archived"
    by simp
  note claim = C3_archived_until_owner_sets_status[where i = 2 and db = demo_db
      and calls = ?calls and caller = bob and user = "\<lparr>user_id = ''bob''\<rparr>"
      and input = ?publish and s = Published and now = 30]
  note stays = claim[THEN conjunct1, THEN mp, OF conjI[OF archived harmless]]
  note moved = claim[THEN conjunct2, THEN mp, OF request, THEN conjunct2, THEN mp, OF other,
      unfolded key]
  from archived harmless stays user own moved show ?thesis
    by (intro conjI)
qed

subsection \<open>C4: the order of a child record\<close>

text \<open>
  Claim C4 as stated: a material has an \<^verbatim>\<open>order\<close> field that defaults to 1 when
  \<^verbatim>\<open>saveMaterial\<close> is not given one.  The material table has no such column, and
  \<^verbatim>\<open>saveMaterial\<close> neither takes nor stores an order: the row it inserts has a key, a
  plan, a name, a type, a url and a creation date.
\<close>

theorem C4_counterexample:
  "map fst LessonMaterials_columns = [''id'', ''planId'', ''name'', ''type'', ''url'', ''createdAt''] \<and>
   map_of LessonMaterials_columns ''order'' = None \<and>
   saveMaterial \<lparr>sm_id = None, sm_planId = 1, sm_name = ''Lamp'', sm_type = None, sm_url = None\<rparr>
       alice 30 demo_db =
     (Inr (Some \<lparr>material_id = 3, material_planId = 1, material_name = ''Lamp'',
        material_type = None, material_url = None, material_createdAt = 30\<rparr>),
      demo_db\<lparr>LessonMaterials := \<lparr>rows = rows (LessonMaterials demo_db) @
        [\<lparr>material_id = 3, material_planId = 1, material_name = ''Lamp'',
          material_type = None, material_url = None, material_createdAt = 30\<rparr>], seq = 3\<rparr>\<rparr>)"
  by code_simp

text \<open>
  Claim C4, amended: objectives and steps have an \<^verbatim>\<open>order\<close> column with default 1, and
  a successful \<^verbatim>\<open>saveObjective\<close> or \<^verbatim>\<open>saveStep\<close> whose input omits \<^verbatim>\<open>order\<close> returns
  and stores a row of order 1, on the create path and on the update path alike; the
  material table has no \<^verbatim>\<open>order\<close> column.
\<close>

theorem C4_order_of_objectives_and_steps:
  "(so_order save_objective = None \<and>
    saveObjective save_objective ctx now db = (Inr (Some objective), db1) \<longrightarrow>
      objective_order objective = 1 \<and> objective \<in> set (rows (LessonObjectives db1))) \<and>
   (ss_order save_step = None \<and>
    saveStep save_step ctx now db = (Inr (Some step), db2) \<longrightarrow>
      step_order step = 1 \<and> step \<in> set (rows (LessonSteps db2))) \<and>
   map_of LessonObjectives_columns ''order'' = Some (column_number\<lparr>col_default := DefaultNumber 1\<rparr>) \<and>
   map_of LessonSteps_columns ''order'' = Some (column_number\<lparr>col_default := DefaultNumber 1\<rparr>) \<and>
   map_of LessonMaterials_columns ''order'' = None"
proof -
  have "map_of LessonObjectives_columns ''order'' =
      Some (column_number\<lparr>col_default := DefaultNumber 1\<rparr>)"
    by (simp add: LessonObjectives_columns_def)
  moreover have "map_of LessonSteps_columns ''order'' =
      Some (column_number\<lparr>col_default := DefaultNumber 1\<rparr>)"
    by (simp add: LessonSteps_columns_def)
  moreover have "map_of LessonMaterials_columns ''order'' = None"
    by (simp add: LessonMaterials_columns_def)
  ultimately show ?thesis
    using saveObjective_order_default[of save_objective ctx now db objective db1]
      saveStep_order_default[of save_step ctx now db step db2]
    by blast
qed

theorem C4_order_of_objectives_and_steps_witness:
  "saveObjective \<lparr>so_id = Some 1, so_planId = 1, so_text = ''Explain the light reaction'',
       so_order = None\<rparr> alice 30 demo_db =
     (Inr (Some \<lparr>objective_id = 1, objective_planId = 1,
        objective_text = ''Explain the light reaction'', objective_order = 1,
        objective_createdAt = 4\<rparr>),
      snd (saveObjective \<lparr>so_id = Some 1, so_planId = 1,
        so_text = ''Explain the light reaction'', so_order = None\<rparr> alice 30 demo_db)) \<and>
   (objective_order \<lparr>objective_id = 1, objective_planId = 1,
        objective_text = ''Explain the light reaction'', objective_order = 1,
        objective_createdAt = 4\<rparr> = 1 \<and>
    \<lparr>objective_id = 1, objective_planId = 1,
        objective_text = ''Explain the light reaction'', objective_order = 1,
        objective_createdAt = 4\<rparr>
      \<in> set (rows (LessonObjectives (snd (saveObjective \<lparr>so_id = Some 1, so_planId = 1,
        so_text = ''Explain the light reaction'', so_order = None\<rparr> alice 30 demo_db))))) \<and>
   saveStep \<lparr>ss_id = None, ss_planId = 1, ss_title = None, ss_description = ''Recap'',
       ss_durationMinutes = None, ss_order = None\<rparr> alice 30 demo_db =
     (Inr (Some \<lparr>step_id = 3, step_planId = 1, step_title = None, step_description = ''Recap'',
        step_durationMinutes = None, step_order = 1, step_createdAt = 30\<rparr>),
      snd (saveStep \<lparr>ss_id = None, ss_planId = 1, ss_title = None, ss_description = ''Recap'',
       ss_durationMinutes = None, ss_order = None\<rparr> alice 30 demo_db)) \<and>
   (step_order \<lparr>step_id = 3, step_planId = 1, step_title = None, step_description = ''Recap'',
        step_durationMinutes = None, step_order = 1, step_createdAt = 30\<rparr> = 1 \<and>
    \<lparr>step_id = 3, step_planId = 1, step_title = None, step_description = ''Recap'',
        step_durationMinutes = None, step_order = 1, step_createdAt = 30\<rparr>
      \<in> set (rows (LessonSteps (snd (saveStep \<lparr>ss_id = None, ss_planId = 1, ss_title = None,
        ss_description = ''Recap'', ss_durationMinutes = None, ss_order = None\<rparr>
        alice 30 demo_db)))))"
proof -
  let ?so = "\<lparr>so_id = Some 1, so_planId = 1, so_text = ''Explain the light reaction'',
       so_order = None\<rparr>"
  let ?objective = "\<lparr>objective_id = 1, objective_planId = 1,
        objective_text = ''Explain the light reaction'', objective_order = 1,
        objective_createdAt = 4\<rparr>"
  let ?ss = "\<lparr>ss_id = None, ss_planId = 1, ss_title = None, ss_description = ''Recap'',
       ss_durationMinutes = None, ss_order = None\<rparr>"
  let ?step = "\<lparr>step_id = 3, step_planId = 1, step_title = None, step_description = ''Recap'',
        step_durationMinutes = None, step_order = 1, step_createdAt = 30\<rparr>"
  have omitted: "so_order ?so = None" "ss_order ?ss = None"
    by simp_all
  have objective: "saveObjective ?so alice 30 demo_db =
      (Inr (Some ?objective), snd (saveObjective ?so alice 30 demo_db))"
    by code_simp
  have step: "saveStep ?ss alice 30 demo_db =
      (Inr (Some ?step), snd (saveStep ?ss alice 30 demo_db))"
    by code_simp
  note claim = C4_order_of_objectives_and_steps[where save_objective = ?so
      and save_step = ?ss and ctx = alice and now = 30 and db = demo_db
      and objective = ?objective and step = ?step
      and ?db1.0 = "snd (saveObjective ?so alice 30 demo_db)"
      and ?db2.0 = "snd (saveStep ?ss alice 30 demo_db)"]
  note r1 = claim[THEN conjunct1, THEN mp, OF conjI[OF omitted(1) objective]]
  note r2 = claim[THEN conjunct2, THEN conjunct1, THEN mp, OF conjI[OF omitted(2) step]]
  from objective r1 step r2 show ?thesis
    by blast
qed

subsection \<open>C5: updates that supply no field\<close>

text \<open>
  Claim C5: \<^verbatim>\<open>updatePlan\<close> called with every optional field undefined, and
  \<^verbatim>\<open>updateJob\<close> called with neither output nor status, leave the store as it was (so
  \<^verbatim>\<open>updatedAt\<close> does not move), and for a signed-in caller who owns the record they
  return the stored record.
\<close>

theorem C5_update_without_fields:
  "(list_all (\<lambda>e. e = None) (updatePlan_entries plan_update) \<longrightarrow>
      snd (updatePlan plan_update ctx now db) = db \<and>
      (\<forall>user existing. requireUser ctx = Inr user \<longrightarrow>
         select_owned_plan (up_id plan_update) user db = Some existing \<longrightarrow>
         updatePlan plan_update ctx now db = (Inr (Some existing), db))) \<and>
   (uj_output job_update = None \<and> uj_status job_update = None \<longrightarrow>
      snd (updateJob job_update ctx now db) = db \<and>
      (\<forall>user existing. requireUser ctx = Inr user \<longrightarrow>
         select_owned_job (uj_id job_update) user db = Some existing \<longrightarrow>
         updateJob job_update ctx now db = (Inr (Some existing), db)))"
  by (simp add: updatePlan_no_fields_store updatePlan_no_fields_result
      updateJob_no_fields_store updateJob_no_fields_result)

theorem C5_update_without_fields_witness:
  "list_all (\<lambda>e. e = None) (updatePlan_entries (no_plan_fields 1)) \<and>
   updatePlan (no_plan_fields 1) alice 50 demo_db =
     (Inr (Some \<lparr>plan_id = 1, plan_ownerId = ''alice'', plan_title = ''Photosynthesis'',
          plan_subject = None, plan_gradeLevel = None, plan_overview = None,
          plan_durationMinutes = None, plan_tags = None, plan_status = Draft,
          plan_createdAt = 1, plan_updatedAt = 1\<rparr>), demo_db) \<and>
   updateJob \<lparr>uj_id = 1, uj_output = None, uj_status = None\<rparr> alice 50 demo_db =
     (Inr (Some \<lparr>job_id = 1, job_planId = None, job_userId = Some ''alice'', job_jobType = Full,
          job_input = None, job_output = None, job_status = Pending, job_createdAt = 10\<rparr>),
      demo_db)"
proof -
  let ?job_update = "\<lparr>uj_id = 1, uj_output = None, uj_status = None\<rparr>"
  have none: "list_all (\<lambda>e. e = None) (updatePlan_entries (no_plan_fields 1))"
    by code_simp
  have user: "requireUser alice = Inr \<lparr>user_id = ''alice''\<rparr>"
    by code_simp
  have plan: "select_owned_plan (up_id (no_plan_fields 1)) \<lparr>user_id = ''alice''\<rparr> demo_db =
      Some \<lparr>plan_id = 1, plan_ownerId = ''alice'', plan_title = ''Photosynthesis'',
          plan_subject = None, plan_gradeLevel = None, plan_overview = None,
          plan_durationMinutes = None, plan_tags = None, plan_status = Draft,
          plan_createdAt = 1, plan_updatedAt = 1\<rparr>"
    by code_simp
  have job: "select_owned_job (uj_id ?job_update) \<lparr>user_id = ''alice''\<rparr> demo_db =
      Some \<lparr>job_id = 1, job_planId = None, job_userId = Some ''alice'', job_jobType = Full,
          job_input = None, job_output = None, job_status = Pending, job_createdAt = 10\<rparr>"
    by code_simp
  have no_fields: "uj_output ?job_update = None \<and> uj_status ?job_update = None"
    by simp
  note claim = C5_update_without_fields[of "no_plan_fields 1" alice 50 demo_db ?job_update]
  note plan_part = claim[THEN conjunct1, THEN mp, OF none, THEN conjunct2, rule_format, OF user plan]
  note job_part = claim[THEN conjunct2, THEN mp, OF no_fields, THEN conjunct2, rule_format, OF user job]
  from none plan_part job_part show ?thesis
    by (intro conjI)
qed

subsection \<open>C6: saving a child record under another plan\<close>

text \<open>
  Claim C6: in a store whose keys are those of a primary key (every store a history
  reaches from the empty store, by \<open>store_ok_run\<close>), \<^verbatim>\<open>saveObjective\<close>, \<^verbatim>\<open>saveStep\<close>
  and \<^verbatim>\<open>saveMaterial\<close> called by a signed-in caller with the key of a stored row whose
  plan is not the plan of the input fail with \<^verbatim>\<open>NOT_FOUND\<close> and leave the store, and so
  the row, as it was.  The message names the child record when the caller owns the plan
  of the input and the plan otherwise.
\<close>

theorem C6_cross_plan_save_not_found:
  assumes "requireUser ctx = Inr user"
  shows
   "(keys_ok objective_id (LessonObjectives db) \<and>
     objective \<in> set (rows (LessonObjectives db)) \<and>
     so_id save_objective = Some (objective_id objective) \<and>
     objective_planId objective \<noteq> so_planId save_objective \<longrightarrow>
       saveObjective save_objective ctx now db =
         (Inl (ActionError NOT_FOUND
            (if owns_plan user (so_planId save_objective) db then ''Objective not found.''
             else ''Lesson plan not found.'')), db)) \<and>
    (keys_ok step_id (LessonSteps db) \<and>
     step \<in> set (rows (LessonSteps db)) \<and>
     ss_id save_step = Some (step_id step) \<and>
     step_planId step \<noteq> ss_planId save_step \<longrightarrow>
       saveStep save_step ctx now db =
         (Inl (ActionError NOT_FOUND
            (if owns_plan user (ss_planId save_step) db then ''Lesson step not found.''
             else ''Lesson plan not found.'')), db)) \<and>
    (keys_ok material_id (LessonMaterials db) \<and>
     material \<in> set (rows (LessonMaterials db)) \<and>
     sm_id save_material = Some (material_id material) \<and>
     material_planId material \<noteq> sm_planId save_material \<longrightarrow>
       saveMaterial save_material ctx now db =
         (Inl (ActionError NOT_FOUND
            (if owns_plan user (sm_planId save_material) db then ''Lesson material not found.''
             else ''Lesson plan not found.'')), db))"
proof (intro conjI impI; elim conjE)
  assume "keys_ok objective_id (LessonObjectives db)"
    "objective \<in> set (rows (LessonObjectives db))"
    "so_id save_objective = Some (objective_id objective)"
    "objective_planId objective \<noteq> so_planId save_objective"
  with assms show "saveObjective save_objective ctx now db =
         (Inl (ActionError NOT_FOUND
            (if owns_plan user (so_planId save_objective) db then ''Objective not found.''
             else ''Lesson plan not found.'')), db)"
    using saveObjective_not_owner[of ctx user save_objective db now]
      saveObjective_cross_plan[of ctx user db objective save_objective _ now]
      owns_plan_select[of user "so_planId save_objective" db]
    by (auto simp: plan_not_found_def)
next
  assume "keys_ok step_id (LessonSteps db)"
    "step \<in> set (rows (LessonSteps db))"
    "ss_id save_step = Some (step_id step)"
    "step_planId step \<noteq> ss_planId save_step"
  with assms show "saveStep save_step ctx now db =
         (Inl (ActionError NOT_FOUND
            (if owns_plan user (ss_planId save_step) db then ''Lesson step not found.''
             else ''Lesson plan not found.'')), db)"
    using saveStep_not_owner[of ctx user save_step db now]
      saveStep_cross_plan[of ctx user db step save_step _ now]
      owns_plan_select[of user "ss_planId save_step" db]
    by (auto simp: plan_not_found_def)
next
  assume "keys_ok material_id (LessonMaterials db)"
    "material \<in> set (rows (LessonMaterials db))"
    "sm_id save_material = Some (material_id material)"
    "material_planId material \<noteq> sm_planId save_material"
  with assms show "saveMaterial save_material ctx now db =
         (Inl (ActionError NOT_FOUND
            (if owns_plan user (sm_planId save_material) db then ''Lesson material not found.''
             else ''Lesson plan not found.'')), db)"
    using saveMaterial_not_owner[of ctx user save_material db now]
      saveMaterial_cross_plan[of ctx user db material save_material _ now]
      owns_plan_select[of user "sm_planId save_material" db]
    by (auto simp: plan_not_found_def)
qed

theorem C6_cross_plan_save_not_found_witness:
  "requireUser alice = Inr \<lparr>user_id = ''alice''\<rparr> \<and>
   keys_ok objective_id (LessonObjectives demo_db) \<and>
   keys_ok step_id (LessonSteps demo_db) \<and>
   keys_ok material_id (LessonMaterials demo_db) \<and>
   saveObjective \<lparr>so_id = Some 2, so_planId = 1, so_text = ''Moved'', so_order = None\<rparr>
       alice 30 demo_db =
     (Inl (ActionError NOT_FOUND ''Objective not found.''), demo_db) \<and>
   saveStep \<lparr>ss_id = Some 2, ss_planId = 1, ss_title = None, ss_description = ''Moved'',
       ss_durationMinutes = None, ss_order = None\<rparr> alice 30 demo_db =
     (Inl (ActionError NOT_FOUND ''Lesson step not found.''), demo_db) \<and>
   saveMaterial \<lparr>sm_id = Some 2, sm_planId = 1, sm_name = ''Moved'', sm_type = None,
       sm_url = None\<rparr> alice 30 demo_db =
     (Inl (ActionError NOT_FOUND ''Lesson material not found.''), demo_db)"
proof -
  let ?so = "\<lparr>so_id = Some 2, so_planId = 1, so_text = ''Moved'', so_order = None\<rparr>"
  let ?ss = "\<lparr>ss_id = Some 2, ss_planId = 1, ss_title = None, ss_description = ''Moved'',
       ss_durationMinutes = None, ss_order = None\<rparr>"
  let ?sm = "\<lparr>sm_id = Some 2, sm_planId = 1, sm_name = ''Moved'', sm_type = None,
       sm_url = None\<rparr>"
  let ?objective = "\<lparr>objective_id = 2, objective_planId = 2, objective_text = ''Add fractions'',
          objective_order = 1, objective_createdAt = 5\<rparr>"
  let ?step = "\<lparr>step_id = 2, step_planId = 2, step_title = None,
          step_description = ''Cut a pie'', step_durationMinutes = None, step_order = 1,
          step_createdAt = 7\<rparr>"
  let ?material = "\<lparr>material_id = 2, material_planId = 2, material_name = ''Worksheet'',
          material_type = None, material_url = None, material_createdAt = 9\<rparr>"
  have user: "requireUser alice = Inr \<lparr>user_id = ''alice''\<rparr>"
    by code_simp
  have keys: "keys_ok objective_id (LessonObjectives demo_db)"
    "keys_ok step_id (LessonSteps demo_db)" "keys_ok material_id (LessonMaterials demo_db)"
    by code_simp+
  have objective: "?objective \<in> set (rows (LessonObjectives demo_db)) \<and>
      so_id ?so = Some (objective_id ?objective) \<and> objective_planId ?objective \<noteq> so_planId ?so"
    by code_simp
  have step: "?step \<in> set (rows (LessonSteps demo_db)) \<and>
      ss_id ?ss = Some (step_id ?step) \<and> step_planId ?step \<noteq> ss_planId ?ss"
    by code_simp
  have material: "?material \<in> set (rows (LessonMaterials demo_db)) \<and>
      sm_id ?sm = Some (material_id ?material) \<and> material_planId ?material \<noteq> sm_planId ?sm"
    by code_simp
  have own: "owns_plan \<lparr>user_id = ''alice''\<rparr> (so_planId ?so) demo_db"
    "owns_plan \<lparr>user_id = ''alice''\<rparr> (ss_planId ?ss) demo_db"
    "owns_plan \<lparr>user_id = ''alice''\<rparr> (sm_planId ?sm) demo_db"
    by code_simp+
  note claim = C6_cross_plan_save_not_found[OF user, where db = demo_db and now = 30
      and save_objective = ?so and objective = ?objective
      and save_step = ?ss and step = ?step
      and save_material = ?sm and material = ?material]
  from claim[THEN conjunct1, THEN mp, OF conjI[OF keys(1) objective]]
  have r1: "saveObjective ?so alice 30 demo_db =
      (Inl (ActionError NOT_FOUND ''Objective not found.''), demo_db)"
    by (simp only: own if_True)
  from claim[THEN conjunct2, THEN conjunct1, THEN mp, OF conjI[OF keys(2) step]]
  have r2: "saveStep ?ss alice 30 demo_db =
      (Inl (ActionError NOT_FOUND ''Lesson step not found.''), demo_db)"
    by (simp only: own if_True)
  from claim[THEN conjunct2, THEN conjunct2, THEN mp, OF conjI[OF keys(3) material]]
  have r3: "saveMaterial ?sm alice 30 demo_db =
      (Inl (ActionError NOT_FOUND ''Lesson material not found.''), demo_db)"
    by (simp only: own if_True)
  from user keys r1 r2 r3 show ?thesis
    by (intro conjI)
qed

subsection \<open>C7: \<^verbatim>\<open>listMyPlans\<close>\<close>

text \<open>
  Claim C7: for a signed-in caller \<^verbatim>\<open>listMyPlans\<close> returns the stored plans whose owner is
  the caller, and when its input carries a status (the field \<^verbatim>\<open>status\<close> of the input
  object) exactly those of them whose status is that value; with no input or no status
  it returns all of the caller's plans.  No plan of another owner is in the result.  The
  store is not changed.
\<close>

theorem C7_listMyPlans_only_own:
  assumes "requireUser ctx = Inr user"
  shows "listMyPlans input ctx now db =
           (Inr (filter (\<lambda>p. plan_ownerId p = user_id user \<and>
                    (case input of None \<Rightarrow> True
                     | Some i \<Rightarrow> (case lp_status i of None \<Rightarrow> True | Some s \<Rightarrow> plan_status p = s)))
                  (rows (LessonPlans db))), db) \<and>
         (\<forall>s. listMyPlans (Some \<lparr>lp_status = Some s\<rparr>) ctx now db =
            (Inr (filter (\<lambda>p. plan_ownerId p = user_id user \<and> plan_status p = s)
               (rows (LessonPlans db))), db)) \<and>
         (\<forall>plans. fst (listMyPlans input ctx now db) = Inr plans \<longrightarrow>
            (\<forall>p\<in>set plans. plan_ownerId p = user_id user))"
proof (intro conjI allI)
  show result: "listMyPlans input ctx now db =
           (Inr (filter (\<lambda>p. plan_ownerId p = user_id user \<and>
                    (case input of None \<Rightarrow> True
                     | Some i \<Rightarrow> (case lp_status i of None \<Rightarrow> True | Some s \<Rightarrow> plan_status p = s)))
                  (rows (LessonPlans db))), db)" for input
    using assms
    by (auto simp: listMyPlans_def listMyPlans_status_def select_where_def Let_def
        split: option.splits)
  show "listMyPlans (Some \<lparr>lp_status = Some s\<rparr>) ctx now db =
            (Inr (filter (\<lambda>p. plan_ownerId p = user_id user \<and> plan_status p = s)
               (rows (LessonPlans db))), db)" for s
    by (simp add: result)
  show "fst (listMyPlans input ctx now db) = Inr plans \<longrightarrow>
      (\<forall>p\<in>set plans. plan_ownerId p = user_id user)" for plans
    by (auto simp: result)
qed

theorem C7_listMyPlans_only_own_witness:
  "requireUser bob = Inr \<lparr>user_id = ''bob''\<rparr> \<and>
   listMyPlans (Some \<lparr>lp_status = Some Draft\<rparr>) bob 20 demo_db = (Inr [], demo_db) \<and>
   listMyPlans (Some \<lparr>lp_status = Some Archived\<rparr>) bob 20 demo_db =
     (Inr [\<lparr>plan_id = 2, plan_ownerId = ''bob'', plan_title = ''Fractions'',
          plan_subject = None, plan_gradeLevel = None, plan_overview = None,
          plan_durationMinutes = None, plan_tags = None, plan_status = Archived,
          plan_createdAt = 2, plan_updatedAt = 3\<rparr>], demo_db) \<and>
   listMyPlans None bob 20 demo_db =
     (Inr [\<lparr>plan_id = 2, plan_ownerId = ''bob'', plan_title = ''Fractions'',
          plan_subject = None, plan_gradeLevel = None, plan_overview = None,
          plan_durationMinutes = None, plan_tags = None, plan_status = Archived,
          plan_createdAt = 2, plan_updatedAt = 3\<rparr>], demo_db)"
proof -
  have user: "requireUser bob = Inr \<lparr>user_id = ''bob''\<rparr>"
    by code_simp
  have drafts: "filter (\<lambda>p. plan_ownerId p = user_id \<lparr>user_id = ''bob''\<rparr> \<and> plan_status p = Draft)
      (rows (LessonPlans demo_db)) = []"
    by code_simp
  have archived: "filter (\<lambda>p. plan_ownerId p = user_id \<lparr>user_id = ''bob''\<rparr> \<and>
        plan_status p = Archived) (rows (LessonPlans demo_db)) =
      [\<lparr>plan_id = 2, plan_ownerId = ''bob'', plan_title = ''Fractions'',
          plan_subject = None, plan_gradeLevel = None, plan_overview = None,
          plan_durationMinutes = None, plan_tags = None, plan_status = Archived,
          plan_createdAt = 2, plan_updatedAt = 3\<rparr>]"
    by code_simp
  have every: "filter (\<lambda>p. plan_ownerId p = user_id \<lparr>user_id = ''bob''\<rparr> \<and>
            (case None of None \<Rightarrow> True
             | Some i \<Rightarrow> (case lp_status i of None \<Rightarrow> True | Some s \<Rightarrow> plan_status p = s)))
          (rows (LessonPlans demo_db)) =
      [\<lparr>plan_id = 2, plan_ownerId = ''bob'', plan_title = ''Fractions'',
          plan_subject = None, plan_gradeLevel = None, plan_overview = None,
          plan_durationMinutes = None, plan_tags = None, plan_status = Archived,
          plan_createdAt = 2, plan_updatedAt = 3\<rparr>]"
    by code_simp
  note claim = C7_listMyPlans_only_own[OF user, where db = demo_db and now = 20]
  have r1: "listMyPlans (Some \<lparr>lp_status = Some Draft\<rparr>) bob 20 demo_db = (Inr [], demo_db)"
    using claim[THEN conjunct2, THEN conjunct1, THEN spec, of Draft]
    by (simp only: drafts)
  have r2: "listMyPlans (Some \<lparr>lp_status = Some Archived\<rparr>) bob 20 demo_db =
     (Inr [\<lparr>plan_id = 2, plan_ownerId = ''bob'', plan_title = ''Fractions'',
          plan_subject = None, plan_gradeLevel = None, plan_overview = None,
          plan_durationMinutes = None, plan_tags = None, plan_status = Archived,
          plan_createdAt = 2, plan_updatedAt = 3\<rparr>], demo_db)"
    using claim[THEN conjunct2, THEN conjunct1, THEN spec, of Archived]
    by (simp only: archived)
  have r3: "listMyPlans None bob 20 demo_db =
     (Inr [\<lparr>plan_id = 2, plan_ownerId = ''bob'', plan_title = ''Fractions'',
          plan_subject = None, plan_gradeLevel = None, plan_overview = None,
          plan_durationMinutes = None, plan_tags = None, plan_status = Archived,
          plan_createdAt = 2, plan_updatedAt = 3\<rparr>], demo_db)"
    using claim[where input = None, THEN conjunct1]
    by (simp only: every)
  from user r1 r2 r3 show ?thesis
    by (intro conjI)
qed

subsection \<open>C8: defaults of \<^verbatim>\<open>createJob\<close>\<close>

text \<open>
  Claim C8: \<^verbatim>\<open>createJob\<close> with \<^verbatim>\<open>jobType\<close> omitted stores and returns a job of type
  \<^verbatim>\<open>full\<close>, and with \<^verbatim>\<open>status\<close> omitted a job of status \<^verbatim>\<open>pending\<close>: when the call
  succeeds, the returned job has these values and is the row appended to the job table.
\<close>

theorem C8_createJob_defaults:
  assumes "createJob input ctx now db = (Inr (Some job), db')"
  shows "(cj_jobType input = None \<longrightarrow> job_jobType job = Full) \<and>
         (cj_status input = None \<longrightarrow> job_status job = Pending) \<and>
         rows (LessonJobs db') = rows (LessonJobs db) @ [job]"
proof (cases "requireUser ctx")
  case (Inl e)
  with assms show ?thesis by (simp add: createJob_def)
next
  case (Inr user)
  with assms show ?thesis
    by (auto simp: createJob_def insert_returning_eq split: if_splits)
qed

theorem C8_createJob_defaults_witness:
  "createJob \<lparr>cj_planId = Some 1, cj_jobType = None, cj_input = None, cj_output = None,
       cj_status = None\<rparr> alice 12 demo_db =
     (Inr (Some \<lparr>job_id = 3, job_planId = Some 1, job_userId = Some ''alice'',
        job_jobType = Full, job_input = None, job_output = None, job_status = Pending,
        job_createdAt = 12\<rparr>),
      demo_db\<lparr>LessonJobs := \<lparr>rows = rows (LessonJobs demo_db) @
        [\<lparr>job_id = 3, job_planId = Some 1, job_userId = Some ''alice'',
          job_jobType = Full, job_input = None, job_output = None, job_status = Pending,
          job_createdAt = 12\<rparr>], seq = 3\<rparr>\<rparr>) \<and>
   job_jobType \<lparr>job_id = 3, job_planId = Some 1, job_userId = Some ''alice'',
        job_jobType = Full, job_input = None, job_output = None, job_status = Pending,
        job_createdAt = 12\<rparr> = Full \<and>
   job_status \<lparr>job_id = 3, job_planId = Some 1, job_userId = Some ''alice'',
        job_jobType = Full, job_input = None, job_output = None, job_status = Pending,
        job_createdAt = 12\<rparr> = Pending"
proof -
  let ?input = "\<lparr>cj_planId = Some 1, cj_jobType = None, cj_input = None, cj_output = None,
       cj_status = None\<rparr>"
  let ?job = "\<lparr>job_id = 3, job_planId = Some 1, job_userId = Some ''alice'',
        job_jobType = Full, job_input = None, job_output = None, job_status = Pending,
        job_createdAt = 12\<rparr>"
  let ?db' = "demo_db\<lparr>LessonJobs := \<lparr>rows = rows (LessonJobs demo_db) @ [?job], seq = 3\<rparr>\<rparr>"
  have call: "createJob ?input alice 12 demo_db = (Inr (Some ?job), ?db')"
    by code_simp
  have "cj_jobType ?input = None" and "cj_status ?input = None"
    by simp_all
  with C8_createJob_defaults[OF call] have "job_jobType ?job = Full \<and> job_status ?job = Pending"
    by blast
  with call show ?thesis by blast
qed

subsection \<open>C9: deleting twice\<close>

text \<open>
  Claim C9: when \<^verbatim>\<open>deleteObjective\<close>, \<^verbatim>\<open>deleteStep\<close> or \<^verbatim>\<open>deleteMaterial\<close> has
  succeeded, the same call by the same caller on the store it left fails with
  \<^verbatim>\<open>NOT_FOUND\<close> and leaves that store as it is.
\<close>

theorem C9_delete_not_idempotent:
  "(deleteObjective delete_objective ctx now db = (Inr deleted_objective, db1) \<longrightarrow>
      deleteObjective delete_objective ctx later db1 =
        (Inl (ActionError NOT_FOUND ''Objective not found.''), db1)) \<and>
   (deleteStep delete_step ctx now db = (Inr deleted_step, db2) \<longrightarrow>
      deleteStep delete_step ctx later db2 =
        (Inl (ActionError NOT_FOUND ''Lesson step not found.''), db2)) \<and>
   (deleteMaterial delete_material ctx now db = (Inr deleted_material, db3) \<longrightarrow>
      deleteMaterial delete_material ctx later db3 =
        (Inl (ActionError NOT_FOUND ''Lesson material not found.''), db3))"
proof (intro conjI impI)
  assume first_call: "deleteObjective delete_objective ctx now db = (Inr deleted_objective, db1)"
  then obtain user where user: "requireUser ctx = Inr user"
    by (cases "requireUser ctx") (simp_all add: deleteObjective_def)
  with first_call obtain plan
    where plan: "select_owned_plan (do_planId delete_objective) user db = Some plan"
    by (cases "select_owned_plan (do_planId delete_objective) user db")
      (simp_all add: deleteObjective_def)
  from first_call user plan
  have db1: "db1 = db\<lparr>LessonObjectives := snd (delete_returning
      (\<lambda>r. objective_id r = do_id delete_objective \<and> objective_planId r = do_planId delete_objective)
      (LessonObjectives db))\<rparr>"
    by (auto simp: deleteObjective_def split_beta Let_def split: option.splits)
  then have "select_owned_plan (do_planId delete_objective) user db1 = Some plan"
    using plan by (simp add: select_owned_plan_def)
  moreover have "delete_returning
      (\<lambda>r. objective_id r = do_id delete_objective \<and> objective_planId r = do_planId delete_objective)
      (LessonObjectives db1) = ([], LessonObjectives db1)"
    unfolding db1 by (simp add: delete_again[OF surjective_pairing])
  moreover have "db1\<lparr>LessonObjectives := LessonObjectives db1\<rparr> = db1"
    by simp
  ultimately show "deleteObjective delete_objective ctx later db1 =
        (Inl (ActionError NOT_FOUND ''Objective not found.''), db1)"
    using user by (simp add: deleteObjective_def)
next
  assume first_call: "deleteStep delete_step ctx now db = (Inr deleted_step, db2)"
  then obtain user where user: "requireUser ctx = Inr user"
    by (cases "requireUser ctx") (simp_all add: deleteStep_def)
  with first_call obtain plan
    where plan: "select_owned_plan (ds_planId delete_step) user db = Some plan"
    by (cases "select_owned_plan (ds_planId delete_step) user db")
      (simp_all add: deleteStep_def)
  from first_call user plan
  have db2: "db2 = db\<lparr>LessonSteps := snd (delete_returning
      (\<lambda>r. step_id r = ds_id delete_step \<and> step_planId r = ds_planId delete_step)
      (LessonSteps db))\<rparr>"
    by (auto simp: deleteStep_def split_beta Let_def split: option.splits)
  then have "select_owned_plan (ds_planId delete_step) user db2 = Some plan"
    using plan by (simp add: select_owned_plan_def)
  moreover have "delete_returning
      (\<lambda>r. step_id r = ds_id delete_step \<and> step_planId r = ds_planId delete_step)
      (LessonSteps db2) = ([], LessonSteps db2)"
    unfolding db2 by (simp add: delete_again[OF surjective_pairing])
  moreover have "db2\<lparr>LessonSteps := LessonSteps db2\<rparr> = db2"
    by simp
  ultimately show "deleteStep delete_step ctx later db2 =
        (Inl (ActionError NOT_FOUND ''Lesson step not found.''), db2)"
    using user by (simp add: deleteStep_def)
next
  assume first_call: "deleteMaterial delete_material ctx now db = (Inr deleted_material, db3)"
  then obtain user where user: "requireUser ctx = Inr user"
    by (cases "requireUser ctx") (simp_all add: deleteMaterial_def)
  with first_call obtain plan
    where plan: "select_owned_plan (dm_planId delete_material) user db = Some plan"
    by (cases "select_owned_plan (dm_planId delete_material) user db")
      (simp_all add: deleteMaterial_def)
  from first_call user plan
  have db3: "db3 = db\<lparr>LessonMaterials := snd (delete_returning
      (\<lambda>r. material_id r = dm_id delete_material \<and> material_planId r = dm_planId delete_material)
      (LessonMaterials db))\<rparr>"
    by (auto simp: deleteMaterial_def split_beta Let_def split: option.splits)
  then have "select_owned_plan (dm_planId delete_material) user db3 = Some plan"
    using plan by (simp add: select_owned_plan_def)
  moreover have "delete_returning
      (\<lambda>r. material_id r = dm_id delete_material \<and> material_planId r = dm_planId delete_material)
      (LessonMaterials db3) = ([], LessonMaterials db3)"
    unfolding db3 by (simp add: delete_again[OF surjective_pairing])
  moreover have "db3\<lparr>LessonMaterials := LessonMaterials db3\<rparr> = db3"
    by simp
  ultimately show "deleteMaterial delete_material ctx later db3 =
        (Inl (ActionError NOT_FOUND ''Lesson material not found.''), db3)"
    using user by (simp add: deleteMaterial_def)
qed

theorem C9_delete_not_idempotent_witness:
  "deleteObjective \<lparr>do_id = 1, do_planId = 1\<rparr> alice 30 demo_db =
     (Inr \<lparr>objective_id = 1, objective_planId = 1, objective_text = ''Explain photosynthesis'',
          objective_order = 3, objective_createdAt = 4\<rparr>,
      snd (deleteObjective \<lparr>do_id = 1, do_planId = 1\<rparr> alice 30 demo_db)) \<and>
   deleteObjective \<lparr>do_id = 1, do_planId = 1\<rparr> alice 31
       (snd (deleteObjective \<lparr>do_id = 1, do_planId = 1\<rparr> alice 30 demo_db)) =
     (Inl (ActionError NOT_FOUND ''Objective not found.''),
      snd (deleteObjective \<lparr>do_id = 1, do_planId = 1\<rparr> alice 30 demo_db)) \<and>
   deleteStep \<lparr>ds_id = 1, ds_planId = 1\<rparr> alice 30 demo_db =
     (Inr \<lparr>step_id = 1, step_planId = 1, step_title = Some ''Introduction'',
          step_description = ''Show a leaf'', step_durationMinutes = Some 10, step_order = 2,
          step_createdAt = 6\<rparr>,
      snd (deleteStep \<lparr>ds_id = 1, ds_planId = 1\<rparr> alice 30 demo_db)) \<and>
   deleteStep \<lparr>ds_id = 1, ds_planId = 1\<rparr> alice 31
       (snd (deleteStep \<lparr>ds_id = 1, ds_planId = 1\<rparr> alice 30 demo_db)) =
     (Inl (ActionError NOT_FOUND ''Lesson step not found.''),
      snd (deleteStep \<lparr>ds_id = 1, ds_planId = 1\<rparr> alice 30 demo_db)) \<and>
   deleteMaterial \<lparr>dm_id = 1, dm_planId = 1\<rparr> alice 30 demo_db =
     (Inr \<lparr>material_id = 1, material_planId = 1, material_name = ''Slides'',
          material_type = Some ''pdf'', material_url = None, material_createdAt = 8\<rparr>,
      snd (deleteMaterial \<lparr>dm_id = 1, dm_planId = 1\<rparr> alice 30 demo_db)) \<and>
   deleteMaterial \<lparr>dm_id = 1, dm_planId = 1\<rparr> alice 31
       (snd (deleteMaterial \<lparr>dm_id = 1, dm_planId = 1\<rparr> alice 30 demo_db)) =
     (Inl (ActionError NOT_FOUND ''Lesson material not found.''),
      snd (deleteMaterial \<lparr>dm_id = 1, dm_planId = 1\<rparr> alice 30 demo_db))"
proof -
  let ?do = "\<lparr>do_id = 1, do_planId = 1\<rparr>"
  let ?ds = "\<lparr>ds_id = 1, ds_planId = 1\<rparr>"
  let ?dm = "\<lparr>dm_id = 1, dm_planId = 1\<rparr>"
  let ?objective = "\<lparr>objective_id = 1, objective_planId = 1,
      objective_text = ''Explain photosynthesis'', objective_order = 3, objective_createdAt = 4\<rparr>"
  let ?step = "\<lparr>step_id = 1, step_planId = 1, step_title = Some ''Introduction'',
      step_description = ''Show a leaf'', step_durationMinutes = Some 10, step_order = 2,
      step_createdAt = 6\<rparr>"
  let ?material = "\<lparr>material_id = 1, material_planId = 1, material_name = ''Slides'',
      material_type = Some ''pdf'', material_url = None, material_createdAt = 8\<rparr>"
  have objective: "deleteObjective ?do alice 30 demo_db =
      (Inr ?objective, snd (deleteObjective ?do alice 30 demo_db))"
    by code_simp
  have step: "deleteStep ?ds alice 30 demo_db = (Inr ?step, snd (deleteStep ?ds alice 30 demo_db))"
    by code_simp
  have material: "deleteMaterial ?dm alice 30 demo_db =
      (Inr ?material, snd (deleteMaterial ?dm alice 30 demo_db))"
    by code_simp
  note claim = C9_delete_not_idempotent[where ctx = alice and now = 30 and later = 31
      and db = demo_db and delete_objective = ?do and delete_step = ?ds
      and delete_material = ?dm and deleted_objective = ?objective and deleted_step = ?step
      and deleted_material = ?material
      and ?db1.0 = "snd (deleteObjective ?do alice 30 demo_db)"
      and ?db2.0 = "snd (deleteStep ?ds alice 30 demo_db)"
      and ?db3.0 = "snd (deleteMaterial ?dm alice 30 demo_db)"]
  from objective step material claim show ?thesis
    by blast
qed

subsection \<open>C10: a key of 0 in a save\<close>

text \<open>
  Claim C10: the schemas of \<^verbatim>\<open>saveObjective\<close>, \<^verbatim>\<open>saveStep\<close> and \<^verbatim>\<open>saveMaterial\<close>
  accept the key 0 whenever they accept the input without a key, and the handlers do with
  the key 0 exactly what they do with no key: for a signed-in caller who owns the plan
  they append a row with a fresh key and change no other row.
\<close>

theorem C10_id_zero_takes_create_path:
  "saveObjective_schema (save_objective\<lparr>so_id := Some 0\<rparr>) =
     saveObjective_schema (save_objective\<lparr>so_id := None\<rparr>) \<and>
   saveObjective (save_objective\<lparr>so_id := Some 0\<rparr>) ctx now db =
     saveObjective (save_objective\<lparr>so_id := None\<rparr>) ctx now db \<and>
   (requireUser ctx = Inr user \<and> owns_plan user (so_planId save_objective) db \<longrightarrow>
      (\<exists>r. saveObjective (save_objective\<lparr>so_id := Some 0\<rparr>) ctx now db =
             (Inr (Some r), db\<lparr>LessonObjectives :=
                \<lparr>rows = rows (LessonObjectives db) @ [r], seq = objective_id r\<rparr>\<rparr>) \<and>
           objective_id r \<notin> objective_id ` set (rows (LessonObjectives db)))) \<and>
   saveStep_schema (save_step\<lparr>ss_id := Some 0\<rparr>) =
     saveStep_schema (save_step\<lparr>ss_id := None\<rparr>) \<and>
   saveStep (save_step\<lparr>ss_id := Some 0\<rparr>) ctx now db =
     saveStep (save_step\<lparr>ss_id := None\<rparr>) ctx now db \<and>
   (requireUser ctx = Inr user \<and> owns_plan user (ss_planId save_step) db \<longrightarrow>
      (\<exists>r. saveStep (save_step\<lparr>ss_id := Some 0\<rparr>) ctx now db =
             (Inr (Some r), db\<lparr>LessonSteps :=
                \<lparr>rows = rows (LessonSteps db) @ [r], seq = step_id r\<rparr>\<rparr>) \<and>
           step_id r \<notin> step_id ` set (rows (LessonSteps db)))) \<and>
   saveMaterial_schema is_url (save_material\<lparr>sm_id := Some 0\<rparr>) =
     saveMaterial_schema is_url (save_material\<lparr>sm_id := None\<rparr>) \<and>
   saveMaterial (save_material\<lparr>sm_id := Some 0\<rparr>) ctx now db =
     saveMaterial (save_material\<lparr>sm_id := None\<rparr>) ctx now db \<and>
   (requireUser ctx = Inr user \<and> owns_plan user (sm_planId save_material) db \<longrightarrow>
      (\<exists>r. saveMaterial (save_material\<lparr>sm_id := Some 0\<rparr>) ctx now db =
             (Inr (Some r), db\<lparr>LessonMaterials :=
                \<lparr>rows = rows (LessonMaterials db) @ [r], seq = material_id r\<rparr>\<rparr>) \<and>
           material_id r \<notin> material_id ` set (rows (LessonMaterials db))))"
proof -
  have "\<exists>r. saveObjective (save_objective\<lparr>so_id := Some 0\<rparr>) ctx now db =
             (Inr (Some r), db\<lparr>LessonObjectives :=
                \<lparr>rows = rows (LessonObjectives db) @ [r], seq = objective_id r\<rparr>\<rparr>) \<and>
           objective_id r \<notin> objective_id ` set (rows (LessonObjectives db))"
    if "requireUser ctx = Inr user" "owns_plan user (so_planId save_objective) db"
    using saveObjective_create[of ctx user "save_objective\<lparr>so_id := Some 0\<rparr>" db now] that
    by auto
  moreover have "\<exists>r. saveStep (save_step\<lparr>ss_id := Some 0\<rparr>) ctx now db =
             (Inr (Some r), db\<lparr>LessonSteps :=
                \<lparr>rows = rows (LessonSteps db) @ [r], seq = step_id r\<rparr>\<rparr>) \<and>
           step_id r \<notin> step_id ` set (rows (LessonSteps db))"
    if "requireUser ctx = Inr user" "owns_plan user (ss_planId save_step) db"
    using saveStep_create[of ctx user "save_step\<lparr>ss_id := Some 0\<rparr>" db now] that
    by auto
  moreover have "\<exists>r. saveMaterial (save_material\<lparr>sm_id := Some 0\<rparr>) ctx now db =
             (Inr (Some r), db\<lparr>LessonMaterials :=
                \<lparr>rows = rows (LessonMaterials db) @ [r], seq = material_id r\<rparr>\<rparr>) \<and>
           material_id r \<notin> material_id ` set (rows (LessonMaterials db))"
    if "requireUser ctx = Inr user" "owns_plan user (sm_planId save_material) db"
    using saveMaterial_create[of ctx user "save_material\<lparr>sm_id := Some 0\<rparr>" db now] that
    by auto
  ultimately show ?thesis
    by (simp add: saveObjective_id_zero saveStep_id_zero saveMaterial_id_zero
        saveObjective_schema_def saveStep_schema_def saveMaterial_schema_def)
qed

theorem C10_id_zero_takes_create_path_witness:
  "saveObjective_schema \<lparr>so_id = Some 0, so_planId = 1, so_text = ''Name the pigments'',
       so_order = None\<rparr> \<and>
   saveObjective (\<lparr>so_id = Some 0, so_planId = 1, so_text = ''Name the pigments'',
       so_order = None\<rparr>\<lparr>so_id := Some 0\<rparr>) alice 30 demo_db =
     (Inr (Some \<lparr>objective_id = 3, objective_planId = 1, objective_text = ''Name the pigments'',
        objective_order = 1, objective_createdAt = 30\<rparr>),
      demo_db\<lparr>LessonObjectives := \<lparr>rows = rows (LessonObjectives demo_db) @
        [\<lparr>objective_id = 3, objective_planId = 1, objective_text = ''Name the pigments'',
          objective_order = 1, objective_createdAt = 30\<rparr>], seq = 3\<rparr>\<rparr>) \<and>
   saveStep (\<lparr>ss_id = Some 0, ss_planId = 1, ss_title = None, ss_description = ''Recap'',
       ss_durationMinutes = None, ss_order = Some 9\<rparr>\<lparr>ss_id := Some 0\<rparr>) alice 30 demo_db =
     (Inr (Some \<lparr>step_id = 3, step_planId = 1, step_title = None, step_description = ''Recap'',
        step_durationMinutes = None, step_order = 9, step_createdAt = 30\<rparr>),
      demo_db\<lparr>LessonSteps := \<lparr>rows = rows (LessonSteps demo_db) @
        [\<lparr>step_id = 3, step_planId = 1, step_title = None, step_description = ''Recap'',
          step_durationMinutes = None, step_order = 9, step_createdAt = 30\<rparr>], seq = 3\<rparr>\<rparr>) \<and>
   saveMaterial (\<lparr>sm_id = Some 0, sm_planId = 1, sm_name = ''Lamp'', sm_type = None,
       sm_url = None\<rparr>\<lparr>sm_id := Some 0\<rparr>) alice 30 demo_db =
     (Inr (Some \<lparr>material_id = 3, material_planId = 1, material_name = ''Lamp'',
        material_type = None, material_url = None, material_createdAt = 30\<rparr>),
      demo_db\<lparr>LessonMaterials := \<lparr>rows = rows (LessonMaterials demo_db) @
        [\<lparr>material_id = 3, material_planId = 1, material_name = ''Lamp'',
          material_type = None, material_url = None, material_createdAt = 30\<rparr>], seq = 3\<rparr>\<rparr>)"
proof -
  let ?so = "\<lparr>so_id = Some 0, so_planId = 1, so_text = ''Name the pigments'', so_order = None\<rparr>"
  let ?ss = "\<lparr>ss_id = Some 0, ss_planId = 1, ss_title = None, ss_description = ''Recap'',
       ss_durationMinutes = None, ss_order = Some 9\<rparr>"
  let ?sm = "\<lparr>sm_id = Some 0, sm_planId = 1, sm_name = ''Lamp'', sm_type = None, sm_url = None\<rparr>"
  note claim = C10_id_zero_takes_create_path[where save_objective = ?so and save_step = ?ss
      and save_material = ?sm and ctx = alice and now = 30 and db = demo_db]
  have valid: "saveObjective_schema ?so"
    by code_simp
  have "saveObjective (?so\<lparr>so_id := None\<rparr>) alice 30 demo_db =
     (Inr (Some \<lparr>objective_id = 3, objective_planId = 1, objective_text = ''Name the pigments'',
        objective_order = 1, objective_createdAt = 30\<rparr>),
      demo_db\<lparr>LessonObjectives := \<lparr>rows = rows (LessonObjectives demo_db) @
        [\<lparr>objective_id = 3, objective_planId = 1, objective_text = ''Name the pigments'',
          objective_order = 1, objective_createdAt = 30\<rparr>], seq = 3\<rparr>\<rparr>)"
    by code_simp
  with claim[THEN conjunct2, THEN conjunct1]
  have objective: "saveObjective (?so\<lparr>so_id := Some 0\<rparr>) alice 30 demo_db =
     (Inr (Some \<lparr>objective_id = 3, objective_planId = 1, objective_text = ''Name the pigments'',
        objective_order = 1, objective_createdAt = 30\<rparr>),
      demo_db\<lparr>LessonObjectives := \<lparr>rows = rows (LessonObjectives demo_db) @
        [\<lparr>objective_id = 3, objective_planId = 1, objective_text = ''Name the pigments'',
          objective_order = 1, objective_createdAt = 30\<rparr>], seq = 3\<rparr>\<rparr>)"
    by (rule trans)
  have "saveStep (?ss\<lparr>ss_id := None\<rparr>) alice 30 demo_db =
     (Inr (Some \<lparr>step_id = 3, step_planId = 1, step_title = None, step_description = ''Recap'',
        step_durationMinutes = None, step_order = 9, step_createdAt = 30\<rparr>),
      demo_db\<lparr>LessonSteps := \<lparr>rows = rows (LessonSteps demo_db) @
        [\<lparr>step_id = 3, step_planId = 1, step_title = None, step_description = ''Recap'',
          step_durationMinutes = None, step_order = 9, step_createdAt = 30\<rparr>], seq = 3\<rparr>\<rparr>)"
    by code_simp
  with claim[THEN conjunct2, THEN conjunct2, THEN conjunct2, THEN conjunct2, THEN conjunct1]
  have step: "saveStep (?ss\<lparr>ss_id := Some 0\<rparr>) alice 30 demo_db =
     (Inr (Some \<lparr>step_id = 3, step_planId = 1, step_title = None, step_description = ''Recap'',
        step_durationMinutes = None, step_order = 9, step_createdAt = 30\<rparr>),
      demo_db\<lparr>LessonSteps := \<lparr>rows = rows (LessonSteps demo_db) @
        [\<lparr>step_id = 3, step_planId = 1, step_title = None, step_description = ''Recap'',
          step_durationMinutes = None, step_order = 9, step_createdAt = 30\<rparr>], seq = 3\<rparr>\<rparr>)"
    by (rule trans)
  have "saveMaterial (?sm\<lparr>sm_id := None\<rparr>) alice 30 demo_db =
     (Inr (Some \<lparr>material_id = 3, material_planId = 1, material_name = ''Lamp'',
        material_type = None, material_url = None, material_createdAt = 30\<rparr>),
      demo_db\<lparr>LessonMaterials := \<lparr>rows = rows (LessonMaterials demo_db) @
        [\<lparr>material_id = 3, material_planId = 1, material_name = ''Lamp'',
          material_type = None, material_url = None, material_createdAt = 30\<rparr>], seq = 3\<rparr>\<rparr>)"
    by code_simp
  with claim[THEN conjunct2, THEN conjunct2, THEN conjunct2, THEN conjunct2, THEN conjunct2,
      THEN conjunct2, THEN conjunct2, THEN conjunct1]
  have material: "saveMaterial (?sm\<lparr>sm_id := Some 0\<rparr>) alice 30 demo_db =
     (Inr (Some \<lparr>material_id = 3, material_planId = 1, material_name = ''Lamp'',
        material_type = None, material_url = None, material_createdAt = 30\<rparr>),
      demo_db\<lparr>LessonMaterials := \<lparr>rows = rows (LessonMaterials demo_db) @
        [\<lparr>material_id = 3, material_planId = 1, material_name = ''Lamp'',
          material_type = None, material_url = None, material_createdAt = 30\<rparr>], seq = 3\<rparr>\<rparr>)"
    by (rule trans)
  from valid objective step material show ?thesis
    by (intro conjI)
qed

end
